theory Spec2Isabelle
  imports Main
begin

section \<open>Transport model shared by both brokers of audio-video.ts\<close>

text \<open>
  The file \<^verbatim>\<open>src/audio-video.ts\<close> holds two brokers, each with its own
  \<^verbatim>\<open>setupWebSocket\<close>: the call-signaling broker (lines 1 to 306) and the
  chat/location broker (lines 308 to 628). Socket objects are shared by reference between
  \<^verbatim>\<open>wss.clients\<close> and the registries, so sockets live in an explicit store that maps a
  handle to the socket's fields, and the registries hold handles.
\<close>

type_synonym handle = nat

datatype ready_state = CONNECTING | OPEN | CLOSING | CLOSED

text \<open>
  \<^verbatim>\<open>interface ExtendedWebSocket extends WebSocket\<close>: every field is optional in the source.
  The chat/location broker declares \<^verbatim>\<open>userId\<close> only and never touches the other fields.
\<close>

record ExtendedWebSocket =
  readyState :: ready_state
  userId :: "string option"
  userRole :: "string option"
  userName :: "string option"
  isAlive :: "bool option"
  path :: "string option"

text \<open>JavaScript truthiness of an optional string: \<^verbatim>\<open>undefined\<close> and \<^verbatim>\<open>""\<close> are falsy.\<close>

fun truthy :: "string option \<Rightarrow> bool" where
  "truthy None = False"
| "truthy (Some s) = (s \<noteq> [])"

text \<open>
  The identity a socket carries where the source tests \<^verbatim>\<open>if (ws.userId)\<close>: the user id
  when it is truthy.
\<close>

definition identity :: "ExtendedWebSocket \<Rightarrow> string option" where
  "identity w = (if truthy (userId w) then userId w else None)"

text \<open>
  \<^verbatim>\<open>parsedData\<close>, the result of \<^verbatim>\<open>JSON.parse(data)\<close>: the fields the handlers read, each
  absent or present. Latitude and longitude are numbers that the code only stores and
  forwards; \<^verbatim>\<open>offer\<close>, \<^verbatim>\<open>answer\<close> and \<^verbatim>\<open>candidate\<close> are opaque payloads.
\<close>

record parsedData =
  event :: "string option"
  token :: "string option"
  toUserId :: "string option"
  offer :: "string option"
  callType :: "string option"
  answer :: "string option"
  candidate :: "string option"
  lat :: "int option"
  lng :: "int option"
  targetUserId :: "string option"
  receiverId :: "string option"
  message :: "string option"
  images :: "string list option"

definition noFields :: parsedData where
  "noFields = \<lparr> event = None, token = None, toUserId = None, offer = None, callType = None,
     answer = None, candidate = None, lat = None, lng = None, targetUserId = None,
     receiverId = None, message = None, images = None \<rparr>"

text \<open>
  \<^verbatim>\<open>jwtHelpers.verifyToken\<close> is imported from \<^verbatim>\<open>../helpars/jwtHelpers\<close> and is not part of
  the source under study, so the handlers take it as a parameter. A call either throws or
  returns a value, which may be falsy.
\<close>

record user =
  user_id :: string
  user_role :: string
  user_email :: string

datatype verify_result = Throws | Returns "user option"

text \<open>
  Modelled from the spec: the enum \<^verbatim>\<open>UserRole\<close> is imported from \<^verbatim>\<open>@prisma/client\<close> and is
  not part of the source under study. The specification names the initiating role Client
  and the receiving role Host, and a role travels as its own name.
\<close>

definition UserRole_Client :: string where
  "UserRole_Client = ''Client''"

definition UserRole_Host :: string where
  "UserRole_Host = ''Host''"

subsection \<open>Durable records of the store\<close>

record room =
  room_id :: nat
  room_senderId :: string
  room_receiverId :: string

record chat =
  chat_id :: nat
  chat_senderId :: string
  chat_receiverId :: string
  chat_roomId :: nat
  chat_message :: string
  chat_images :: "string list"
  isRead :: bool
  createdAt :: nat

record userRow =
  row_id :: string
  firstName :: string
  lastName :: string
  profileImage :: "string option"
  row_lat :: "int option"
  row_lng :: "int option"

text \<open>The projection \<^verbatim>\<open>select: { profileImage, firstName, lastName, id }\<close> of a user row.\<close>

record userInfo =
  info_id :: string
  info_firstName :: string
  info_lastName :: string
  info_profileImage :: "string option"

subsection \<open>Outbound envelopes and observable effects\<close>

datatype outbound =
    Info string
  | Err string
  | Authenticated string string bool
  | IncomingCall "string option" "string option" "string option"
  | CallAnswered "string option" "string option"
  | IceCandidate "string option" "string option"
  | CallDisconnected "string option" string
  | UserStatus string bool
  | LocationUpdate string int int
  | ChatMessage chat
  | NoRoomFound
  | FetchChats "chat list"
  | NoUnreadMessages
  | UnReadMessages "chat list" nat
  | MessageList "(userInfo option \<times> chat option) list"

text \<open>
  What a handler does to the outside world, in program order: \<^verbatim>\<open>socket.send\<close>,
  \<^verbatim>\<open>socket.ping\<close>, \<^verbatim>\<open>socket.close\<close>, \<^verbatim>\<open>socket.terminate\<close>, and a line on the console.
\<close>

datatype effect =
    Send handle outbound
  | Ping handle
  | Close handle
  | Terminate handle
  | Log string

text \<open>
  \<^verbatim>\<open>close()\<close> and \<^verbatim>\<open>terminate()\<close> of the \<^verbatim>\<open>ws\<close> library leave a closed socket alone and
  put any other socket into the closing state; the \<^verbatim>\<open>close\<close> event follows later.
\<close>

definition begin_closing :: "ExtendedWebSocket \<Rightarrow> ExtendedWebSocket" where
  "begin_closing w = w\<lparr>readyState := (if readyState w = CLOSED then CLOSED else CLOSING)\<rparr>"

section \<open>The call-signaling broker (lines 1 to 306)\<close>

record call_state =
  sockets :: "handle \<rightharpoonup> ExtendedWebSocket"
  clients :: "handle list"
  onlineUsers :: "string \<rightharpoonup> (handle \<times> string option)"
  onlineCouriers :: "string \<rightharpoonup> handle"

definition update_socket ::
  "handle \<Rightarrow> (ExtendedWebSocket \<Rightarrow> ExtendedWebSocket) \<Rightarrow> call_state \<Rightarrow> call_state" where
  "update_socket h f s = s\<lparr>sockets := (sockets s)(h := map_option f (sockets s h))\<rparr>"

text \<open>\<^verbatim>\<open>function heartbeat(ws)\<close>, the \<^verbatim>\<open>pong\<close> handler (lines 38 to 40, 73).\<close>

definition heartbeat :: "handle \<Rightarrow> call_state \<Rightarrow> call_state" where
  "heartbeat ws s = update_socket ws (\<lambda>w. w\<lparr>isAlive := Some True\<rparr>) s"

text \<open>One iteration of \<^verbatim>\<open>wss.clients.forEach\<close> inside the interval (lines 44 to 56).\<close>

definition interval_client :: "handle \<Rightarrow> call_state \<times> effect list \<Rightarrow> call_state \<times> effect list" where
  "interval_client ws se =
     (let s = fst se; es = snd se in
      case sockets s ws of
        None \<Rightarrow> (s, es)
      | Some w \<Rightarrow>
          if isAlive w = Some False
          then
            (let s1 = (case identity w of
                         None \<Rightarrow> s
                       | Some u \<Rightarrow>
                           (let s0 = s\<lparr>onlineUsers := (onlineUsers s)(u := None)\<rparr>
                            in if userRole w = Some UserRole_Client
                               then s0\<lparr>onlineCouriers := (onlineCouriers s0)(u := None)\<rparr>
                               else s0))
             in (update_socket ws begin_closing s1, es @ [Terminate ws]))
          else (update_socket ws (\<lambda>x. x\<lparr>isAlive := Some False\<rparr>) s, es @ [Ping ws]))"

text \<open>One tick of \<^verbatim>\<open>setInterval(..., 30000)\<close> (lines 43 to 57).\<close>

definition interval_period_ms :: nat where
  "interval_period_ms = 30000"

definition interval_tick :: "call_state \<Rightarrow> call_state \<times> effect list" where
  "interval_tick s = fold interval_client (clients s) (s, [])"

text \<open>
  \<^verbatim>\<open>wss.on("connection", ...)\<close> (lines 60 to 71): the transport has created the open
  socket \<^verbatim>\<open>ws\<close> and added it to \<^verbatim>\<open>wss.clients\<close>; the handler sets two fields and greets.
\<close>

definition onConnection :: "handle \<Rightarrow> string \<Rightarrow> call_state \<Rightarrow> call_state \<times> effect list" where
  "onConnection ws url s =
     (let w = \<lparr> readyState = OPEN, userId = None, userRole = None, userName = None,
                 isAlive = Some True, path = Some url \<rparr>
      in (s\<lparr>sockets := (sockets s)(ws \<mapsto> w),
            clients := (if ws \<in> set (clients s) then clients s else clients s @ [ws])\<rparr>,
          [Send ws (Info ''Connected to server. Please authenticate.'')]))"

text \<open>
  \<^verbatim>\<open>handleParcelChatMessage\<close> (lines 175 to 306). Console lines are kept with their
  fixed text; the values interpolated into them are left out.
\<close>

definition relay ::
  "call_state \<Rightarrow> string option \<Rightarrow> outbound \<Rightarrow> string \<Rightarrow> effect list" where
  "relay s to env failed =
     (case (case to of None \<Rightarrow> None | Some t \<Rightarrow> onlineUsers s t) of
        None \<Rightarrow> [Log failed]
      | Some (h, p) \<Rightarrow>
          (case sockets s h of
             None \<Rightarrow> [Log failed]
           | Some r \<Rightarrow> if readyState r = OPEN then [Send h env, Log ''Success''] else [Log failed]))"

definition handleParcelChatMessage ::
  "handle \<Rightarrow> ExtendedWebSocket \<Rightarrow> parsedData \<Rightarrow> call_state \<Rightarrow> effect list" where
  "handleParcelChatMessage ws w pd s =
     (if event pd = Some ''callUser'' then
        Log ''callUser'' #
        (if userRole w \<noteq> Some UserRole_Client then
           [Send ws (Err ''Only Client can initiate a call.'')]
         else if \<not> (truthy (callType pd) \<and> callType pd \<in> {Some ''audio'', Some ''video''}) then
           [Send ws (Err ''Invalid or missing callType. Must be 'audio' or 'video'.'')]
         else
           (case (case toUserId pd of None \<Rightarrow> None | Some t \<Rightarrow> onlineUsers s t) of
              None \<Rightarrow> [Log ''Failed: Host not available'',
                        Send ws (Err ''Host not available or invalid recipient.'')]
            | Some (h, p) \<Rightarrow>
                (case sockets s h of
                   None \<Rightarrow> [Log ''Failed: Host not available'',
                             Send ws (Err ''Host not available or invalid recipient.'')]
                 | Some r \<Rightarrow>
                     if readyState r = OPEN \<and> userRole r = Some UserRole_Host
                     then [Send h (IncomingCall (userId w) (offer pd) (callType pd)),
                           Log ''Success'']
                     else [Log ''Failed: Host not available'',
                           Send ws (Err ''Host not available or invalid recipient.'')])))
      else if event pd = Some ''answerCall'' then
        Log ''answerCall'' #
        relay s (toUserId pd) (CallAnswered (userId w) (answer pd)) ''Failed: Caller not available''
      else if event pd = Some ''iceCandidate'' then
        Log ''iceCandidate'' #
        relay s (toUserId pd) (IceCandidate (userId w) (candidate pd)) ''Failed: Peer not available''
      else if event pd = Some ''disconnectCall'' then
        Log ''disconnectCall'' #
        relay s (toUserId pd) (CallDisconnected (userId w) ''Call has been disconnected.'')
          ''Failed: Peer not available''
      else [Send ws (Err ''Unknown event type'')])"

text \<open>
  The \<^verbatim>\<open>authenticate\<close> branch of the message handler (lines 91 to 144). Whatever the
  \<^verbatim>\<open>try\<close> block throws, a throwing verifier or the destructuring of a falsy result, ends
  in the \<^verbatim>\<open>catch\<close> that reports an invalid token.
\<close>

definition authenticate ::
  "(string \<Rightarrow> verify_result) \<Rightarrow> handle \<Rightarrow> ExtendedWebSocket \<Rightarrow> parsedData \<Rightarrow> call_state
     \<Rightarrow> call_state \<times> effect list" where
  "authenticate verifyToken ws w pd s =
     (case token pd of
        None \<Rightarrow> (s, [Send ws (Err ''Token is required for authentication'')])
      | Some tk \<Rightarrow>
          if tk = [] then (s, [Send ws (Err ''Token is required for authentication'')])
          else
            (case verifyToken tk of
               Throws \<Rightarrow> (s, [Send ws (Err ''Invalid token'')])
             | Returns None \<Rightarrow> (s, [Send ws (Err ''Invalid token'')])
             | Returns (Some u) \<Rightarrow>
                 (let i = user_id u; r = user_role u;
                      evict =
                        (case onlineUsers s i of
                           None \<Rightarrow> (s, [])
                         | Some (h, p) \<Rightarrow>
                             if p = path w then
                               (let s0 = update_socket h begin_closing s;
                                    s1 = s0\<lparr>onlineUsers := (onlineUsers s0)(i := None)\<rparr>
                                in (if r = UserRole_Client
                                    then s1\<lparr>onlineCouriers := (onlineCouriers s1)(i := None)\<rparr>
                                    else s1,
                                    [Close h]))
                             else (s, []));
                      s2 = update_socket ws
                             (\<lambda>x. x\<lparr>userId := Some i, userRole := Some r,
                                      userName := Some (user_email u)\<rparr>) (fst evict);
                      s3 = s2\<lparr>onlineUsers := (onlineUsers s2)(i \<mapsto> (ws, path w))\<rparr>;
                      s4 = (if r = UserRole_Client
                            then s3\<lparr>onlineCouriers := (onlineCouriers s3)(i \<mapsto> ws)\<rparr>
                            else s3)
                  in (s4, snd evict @ [Send ws (Authenticated i r True)]))))"

text \<open>
  The \<^verbatim>\<open>message\<close> handler of a connection (lines 76 to 159). The payload is \<^verbatim>\<open>None\<close>
  when \<^verbatim>\<open>JSON.parse\<close> throws or yields \<^verbatim>\<open>null\<close>, whose first property access throws.
  An event is only delivered for a socket that exists.
\<close>

definition onMessage ::
  "(string \<Rightarrow> verify_result) \<Rightarrow> handle \<Rightarrow> parsedData option \<Rightarrow> call_state
     \<Rightarrow> call_state \<times> effect list" where
  "onMessage verifyToken ws data s =
     (case sockets s ws of
        None \<Rightarrow> (s, [])
      | Some w \<Rightarrow>
          (case data of
             None \<Rightarrow> (s, [Send ws (Err ''Invalid message format'')])
           | Some pd \<Rightarrow>
               if identity w = None \<and> event pd \<noteq> Some ''authenticate'' then
                 (s, [Log ''Received event'', Send ws (Err ''Please authenticate first'')])
               else if event pd = Some ''authenticate'' then
                 (let r = authenticate verifyToken ws w pd s
                  in (fst r, Log ''Received event'' # snd r))
               else if path w = Some ''/driver-location'' then
                 (s, [Log ''Received event'', Log ''Handling driver location update''])
               else
                 (s, Log ''Received event'' # handleParcelChatMessage ws w pd s)))"

text \<open>The \<^verbatim>\<open>close\<close> handler of a connection (lines 162 to 169).\<close>

definition onClose :: "handle \<Rightarrow> call_state \<Rightarrow> call_state" where
  "onClose ws s =
     (case sockets s ws of
        None \<Rightarrow> s
      | Some w \<Rightarrow>
          (case identity w of
             None \<Rightarrow> s
           | Some u \<Rightarrow>
               (let s0 = s\<lparr>onlineUsers := (onlineUsers s)(u := None)\<rparr>
                in if userRole w = Some UserRole_Client
                   then s0\<lparr>onlineCouriers := (onlineCouriers s0)(u := None)\<rparr>
                   else s0)))"

text \<open>
  A \<^verbatim>\<open>close\<close> event: the library marks the socket closed and drops it from
  \<^verbatim>\<open>wss.clients\<close> in its own listener, which is registered first, then the handler runs.
\<close>

definition close_event :: "handle \<Rightarrow> call_state \<Rightarrow> call_state" where
  "close_event ws s =
     onClose ws ((update_socket ws (\<lambda>x. x\<lparr>readyState := CLOSED\<rparr>) s)
                   \<lparr>clients := removeAll ws (clients s)\<rparr>)"

text \<open>The envelopes a list of effects puts on the wire, with the socket each one goes to.\<close>

fun sent :: "effect list \<Rightarrow> (handle \<times> outbound) list" where
  "sent [] = []"
| "sent (Send h m # es) = (h, m) # sent es"
| "sent (_ # es) = sent es"

section \<open>The chat and location broker (lines 308 to 628)\<close>

subsection \<open>The store adapter\<close>

text \<open>
  Modelled from the spec: the store adapter. The handlers reach the database through the
  prisma client imported from \<^verbatim>\<open>../shared/prisma\<close>, which is not part of the source
  under study. Section 6 of the specification lists the operations (find or create a room
  for an unordered pair, create a chat, list chats by creation time, mark read, update a
  user's location, list rooms with their last chat, user summaries) and section 7 names
  the failure of a store call as an error class. Here every operation is a function of
  the store that returns \<^verbatim>\<open>None\<close> where the call rejects. The store is up or down for a
  whole run of a handler; a new record takes the next id, a new chat is unread and is
  stamped with the store's clock.
\<close>

record store =
  rooms :: "room list"
  chats :: "chat list"
  users :: "userRow list"
  available :: bool
  nextId :: nat
  clock :: nat

text \<open>The \<^verbatim>\<open>where\<close> clause of the room queries (lines 438 to 443): either direction of the pair.\<close>

definition is_room_of :: "string \<Rightarrow> string \<Rightarrow> room \<Rightarrow> bool" where
  "is_room_of a b r \<longleftrightarrow>
     (room_senderId r = a \<and> room_receiverId r = b) \<or> (room_senderId r = b \<and> room_receiverId r = a)"

text \<open>Modelled from the spec: \<^verbatim>\<open>store.findRoom\<close>, the first room of the pair or none.\<close>

definition room_findFirst :: "store \<Rightarrow> string \<Rightarrow> string \<Rightarrow> room option option" where
  "room_findFirst d a b = (if available d then Some (find (is_room_of a b) (rooms d)) else None)"

text \<open>Modelled from the spec: \<^verbatim>\<open>store.createRoom\<close>.\<close>

definition room_create :: "store \<Rightarrow> string \<Rightarrow> string \<Rightarrow> (room \<times> store) option" where
  "room_create d a b =
     (if available d then
        (let r = \<lparr> room_id = nextId d, room_senderId = a, room_receiverId = b \<rparr>
         in Some (r, d\<lparr>rooms := rooms d @ [r], nextId := Suc (nextId d)\<rparr>))
      else None)"

text \<open>Modelled from the spec: \<^verbatim>\<open>store.createChat\<close>.\<close>

definition chat_create ::
  "store \<Rightarrow> string \<Rightarrow> string \<Rightarrow> nat \<Rightarrow> string \<Rightarrow> string list \<Rightarrow> (chat \<times> store) option" where
  "chat_create d a b rid m imgs =
     (if available d then
        (let c = \<lparr> chat_id = nextId d, chat_senderId = a, chat_receiverId = b, chat_roomId = rid,
                    chat_message = m, chat_images = imgs, isRead = False, createdAt = clock d \<rparr>
         in Some (c, d\<lparr>chats := chats d @ [c], nextId := Suc (nextId d), clock := Suc (clock d)\<rparr>))
      else None)"

text \<open>Modelled from the spec: \<^verbatim>\<open>store.listChats\<close>, oldest first.\<close>

definition chat_findMany_room :: "store \<Rightarrow> nat \<Rightarrow> chat list option" where
  "chat_findMany_room d rid =
     (if available d then Some (sort_key createdAt (filter (\<lambda>c. chat_roomId c = rid) (chats d)))
      else None)"

text \<open>Modelled from the spec: \<^verbatim>\<open>store.markRead\<close> for the chats a user received in a room.\<close>

definition chat_updateMany_read :: "store \<Rightarrow> nat \<Rightarrow> string \<Rightarrow> store option" where
  "chat_updateMany_read d rid u =
     (if available d then
        Some (d\<lparr>chats := map (\<lambda>c. if chat_roomId c = rid \<and> chat_receiverId c = u
                                    then c\<lparr>isRead := True\<rparr> else c) (chats d)\<rparr>)
      else None)"

text \<open>Modelled from the spec: the unread chats a user received in a room.\<close>

definition chat_findMany_unread :: "store \<Rightarrow> nat \<Rightarrow> string \<Rightarrow> chat list option" where
  "chat_findMany_unread d rid u =
     (if available d then
        Some (filter (\<lambda>c. chat_roomId c = rid \<and> \<not> isRead c \<and> chat_receiverId c = u) (chats d))
      else None)"

text \<open>
  Modelled from the spec: \<^verbatim>\<open>store.updateUserLocation\<close>, which may fail; it rejects as well
  when no row has the id.
\<close>

definition user_update :: "store \<Rightarrow> string \<Rightarrow> int \<Rightarrow> int \<Rightarrow> store option" where
  "user_update d u la ln =
     (if available d \<and> u \<in> set (map row_id (users d)) then
        Some (d\<lparr>users := map (\<lambda>r. if row_id r = u
                                   then r\<lparr>row_lat := Some la, row_lng := Some ln\<rparr> else r) (users d)\<rparr>)
      else None)"

text \<open>
  Modelled from the spec: \<^verbatim>\<open>store.listRoomsFor\<close>, the rooms of a user, each with its most
  recent chat (\<^verbatim>\<open>orderBy desc, take 1\<close>).
\<close>

definition room_findMany_user :: "store \<Rightarrow> string \<Rightarrow> (room \<times> chat list) list option" where
  "room_findMany_user d u =
     (if available d then
        Some (map (\<lambda>r. (r, take 1 (rev (sort_key createdAt
                                (filter (\<lambda>c. chat_roomId c = room_id r) (chats d))))))
                 (filter (\<lambda>r. room_senderId r = u \<or> room_receiverId r = u) (rooms d)))
      else None)"

text \<open>Modelled from the spec: \<^verbatim>\<open>store.userSummaries\<close>.\<close>

definition user_findMany :: "store \<Rightarrow> string list \<Rightarrow> userInfo list option" where
  "user_findMany d ids =
     (if available d then
        Some (map (\<lambda>r. \<lparr> info_id = row_id r, info_firstName = firstName r,
                          info_lastName = lastName r, info_profileImage = profileImage r \<rparr>)
                 (filter (\<lambda>r. row_id r \<in> set ids) (users d)))
      else None)"

subsection \<open>State and handlers\<close>

text \<open>
  The module-level registries \<^verbatim>\<open>onlineUsers\<close> (a set here), \<^verbatim>\<open>userSockets\<close>,
  \<^verbatim>\<open>userLocations\<close> and \<^verbatim>\<open>locationSubscribers\<close> (lines 318 to 323), the sockets and
  \<^verbatim>\<open>wss.clients\<close>, and the database. A \<^verbatim>\<open>Set\<close> of sockets is a list without repetition, in
  insertion order, which is the order \<^verbatim>\<open>forEach\<close> visits. Handlers run to completion one
  after the other; console lines are kept with their fixed text.
\<close>

record chat_state =
  sockets_chat :: "handle \<rightharpoonup> ExtendedWebSocket"
  clients_chat :: "handle list"
  onlineUsers_chat :: "string set"
  userSockets :: "string \<rightharpoonup> handle"
  userLocations :: "string \<rightharpoonup> (int \<times> int)"
  locationSubscribers :: "string \<rightharpoonup> handle list"
  db :: store

definition is_open :: "chat_state \<Rightarrow> handle \<Rightarrow> bool" where
  "is_open s h = (case sockets_chat s h of None \<Rightarrow> False | Some w \<Rightarrow> readyState w = OPEN)"

definition update_socket_chat ::
  "handle \<Rightarrow> (ExtendedWebSocket \<Rightarrow> ExtendedWebSocket) \<Rightarrow> chat_state \<Rightarrow> chat_state" where
  "update_socket_chat h f s = s\<lparr>sockets_chat := (sockets_chat s)(h := map_option f (sockets_chat s h))\<rparr>"

text \<open>\<^verbatim>\<open>function broadcastToAll(wss, message)\<close> (lines 622 to 628).\<close>

definition broadcastToAll :: "chat_state \<Rightarrow> outbound \<Rightarrow> effect list" where
  "broadcastToAll s m = map (\<lambda>h. Send h m) (filter (is_open s) (clients_chat s))"

text \<open>The text of the \<^verbatim>\<open>console.error\<close> in the outer \<^verbatim>\<open>catch\<close> (lines 591 to 593).\<close>

definition handling_error :: effect where
  "handling_error = Log ''WebSocket message handling error''"

text \<open>\<^verbatim>\<open>return ws.close()\<close> (lines 348 and 354).\<close>

definition ws_close :: "handle \<Rightarrow> chat_state \<Rightarrow> chat_state \<times> effect list" where
  "ws_close ws s = (update_socket_chat ws begin_closing s, [Close ws])"

text \<open>\<^verbatim>\<open>case "authenticate"\<close> (lines 346 to 369).\<close>

definition authenticate_chat ::
  "(string \<Rightarrow> verify_result) \<Rightarrow> handle \<Rightarrow> parsedData \<Rightarrow> chat_state \<Rightarrow> chat_state \<times> effect list" where
  "authenticate_chat verifyToken ws pd s =
     (case token pd of
        None \<Rightarrow> ws_close ws s
      | Some tk \<Rightarrow>
          if tk = [] then ws_close ws s
          else
            (case verifyToken tk of
               Throws \<Rightarrow> (s, [handling_error])
             | Returns None \<Rightarrow> ws_close ws s
             | Returns (Some u) \<Rightarrow>
                 (let i = user_id u;
                      s1 = update_socket_chat ws (\<lambda>x. x\<lparr>userId := Some i\<rparr>) s;
                      s2 = s1\<lparr>onlineUsers_chat := insert i (onlineUsers_chat s1),
                              userSockets := (userSockets s1)(i \<mapsto> ws)\<rparr>
                  in (s2, broadcastToAll s2 (UserStatus i True)))))"

text \<open>\<^verbatim>\<open>case "locationUpdate"\<close> (lines 374 to 405).\<close>

definition locationUpdate ::
  "handle \<Rightarrow> ExtendedWebSocket \<Rightarrow> parsedData \<Rightarrow> chat_state \<Rightarrow> chat_state \<times> effect list" where
  "locationUpdate ws w pd s =
     (case (identity w, lat pd, lng pd) of
        (Some u, Some la, Some ln) \<Rightarrow>
          (let s1 = s\<lparr>userLocations := (userLocations s)(u \<mapsto> (la, ln))\<rparr>;
               upd = (case user_update (db s1) u la ln of
                        None \<Rightarrow> (s1, [Log ''DB update error''])
                      | Some d \<Rightarrow> (s1\<lparr>db := d\<rparr>, []));
               s2 = fst upd;
               subscribers = (case locationSubscribers s2 u of None \<Rightarrow> [] | Some hs \<Rightarrow> hs)
           in (s2, snd upd @ map (\<lambda>h. Send h (LocationUpdate u la ln))
                                 (filter (is_open s2) subscribers)))
      | _ \<Rightarrow> (s, []))"

text \<open>\<^verbatim>\<open>case "subscribeToLocation"\<close> (lines 412 to 424).\<close>

definition subscribeToLocation ::
  "handle \<Rightarrow> ExtendedWebSocket \<Rightarrow> parsedData \<Rightarrow> chat_state \<Rightarrow> chat_state \<times> effect list" where
  "subscribeToLocation ws w pd s =
     (case (identity w, targetUserId pd) of
        (Some u, Some t) \<Rightarrow>
          if t = [] then (s, [])
          else
            (let old = (case locationSubscribers s t of None \<Rightarrow> [] | Some hs \<Rightarrow> hs)
             in (s\<lparr>locationSubscribers :=
                     (locationSubscribers s)(t \<mapsto> (if ws \<in> set old then old else old @ [ws]))\<rparr>,
                 [Log ''subscribed to location'']))
      | _ \<Rightarrow> (s, []))"

text \<open>
  \<^verbatim>\<open>case "message"\<close> (lines 430 to 471). A rejected store call throws to the outer
  \<^verbatim>\<open>catch\<close>, which keeps what the store already did.
\<close>

definition message_chat ::
  "handle \<Rightarrow> ExtendedWebSocket \<Rightarrow> parsedData \<Rightarrow> chat_state \<Rightarrow> chat_state \<times> effect list" where
  "message_chat ws w pd s =
     (case (identity w, receiverId pd, message pd) of
        (Some u, Some r, Some m) \<Rightarrow>
          if r = [] \<or> m = [] then (s, [Log ''Invalid message payload''])
          else
            (case room_findFirst (db s) u r of
               None \<Rightarrow> (s, [handling_error])
             | Some found \<Rightarrow>
                 (case (case found of
                          Some rm \<Rightarrow> Some (rm, db s)
                        | None \<Rightarrow> room_create (db s) u r) of
                    None \<Rightarrow> (s, [handling_error])
                  | Some (rm, d1) \<Rightarrow>
                      (case chat_create d1 u r (room_id rm) m
                              (case images pd of None \<Rightarrow> [] | Some is \<Rightarrow> is) of
                         None \<Rightarrow> (s\<lparr>db := d1\<rparr>, [handling_error])
                       | Some (c, d2) \<Rightarrow>
                           (s\<lparr>db := d2\<rparr>,
                            (case userSockets s r of
                               None \<Rightarrow> []
                             | Some h \<Rightarrow> if is_open s h then [Send h (ChatMessage c)] else [])
                            @ [Send ws (ChatMessage c)]))))
      | _ \<Rightarrow> (s, [Log ''Invalid message payload'']))"

text \<open>\<^verbatim>\<open>case "fetchChats"\<close> (lines 475 to 505).\<close>

definition fetchChats ::
  "handle \<Rightarrow> ExtendedWebSocket \<Rightarrow> parsedData \<Rightarrow> chat_state \<Rightarrow> chat_state \<times> effect list" where
  "fetchChats ws w pd s =
     (case (identity w, receiverId pd) of
        (Some u, Some r) \<Rightarrow>
          if r = [] then (s, [])
          else
            (case room_findFirst (db s) u r of
               None \<Rightarrow> (s, [handling_error])
             | Some None \<Rightarrow> (s, [Send ws NoRoomFound])
             | Some (Some rm) \<Rightarrow>
                 (case chat_findMany_room (db s) (room_id rm) of
                    None \<Rightarrow> (s, [handling_error])
                  | Some cs \<Rightarrow>
                      (case chat_updateMany_read (db s) (room_id rm) u of
                         None \<Rightarrow> (s, [handling_error])
                       | Some d \<Rightarrow> (s\<lparr>db := d\<rparr>, [Send ws (FetchChats cs)]))))
      | _ \<Rightarrow> (s, []))"

text \<open>\<^verbatim>\<open>case "unReadMessages"\<close> (lines 509 to 538).\<close>

definition unReadMessages ::
  "handle \<Rightarrow> ExtendedWebSocket \<Rightarrow> parsedData \<Rightarrow> chat_state \<Rightarrow> chat_state \<times> effect list" where
  "unReadMessages ws w pd s =
     (case (identity w, receiverId pd) of
        (Some u, Some r) \<Rightarrow>
          if r = [] then (s, [])
          else
            (case room_findFirst (db s) u r of
               None \<Rightarrow> (s, [handling_error])
             | Some None \<Rightarrow> (s, [Send ws NoUnreadMessages])
             | Some (Some rm) \<Rightarrow>
                 (case chat_findMany_unread (db s) (room_id rm) u of
                    None \<Rightarrow> (s, [handling_error])
                  | Some cs \<Rightarrow> (s, [Send ws (UnReadMessages cs (length cs))])))
      | _ \<Rightarrow> (s, []))"

text \<open>\<^verbatim>\<open>case "messageList"\<close> (lines 541 to 586), with its own \<^verbatim>\<open>try\<close> and \<^verbatim>\<open>catch\<close>.\<close>

definition otherUserId :: "string \<Rightarrow> room \<Rightarrow> string" where
  "otherUserId u r = (if room_senderId r = u then room_receiverId r else room_senderId r)"

definition messageList ::
  "handle \<Rightarrow> ExtendedWebSocket \<Rightarrow> chat_state \<Rightarrow> chat_state \<times> effect list" where
  "messageList ws w s =
     (case identity w of
        None \<Rightarrow> (s, [])
      | Some u \<Rightarrow>
          (case room_findMany_user (db s) u of
             None \<Rightarrow> (s, [Log ''Error fetching message list'',
                          Send ws (Err ''Failed to fetch message list'')])
           | Some rs \<Rightarrow>
               (case user_findMany (db s) (map (\<lambda>rc. otherUserId u (fst rc)) rs) of
                  None \<Rightarrow> (s, [Log ''Error fetching message list'',
                               Send ws (Err ''Failed to fetch message list'')])
                | Some userInfos \<Rightarrow>
                    (s, [Send ws (MessageList
                           (map (\<lambda>rc. (find (\<lambda>i. info_id i = otherUserId u (fst rc)) userInfos,
                                         case snd rc of [] \<Rightarrow> None | c # cs \<Rightarrow> Some c))
                                rs))]))))"

text \<open>
  The \<^verbatim>\<open>message\<close> handler of a connection (lines 337 to 594): one \<^verbatim>\<open>switch\<close> on the
  event tag inside a \<^verbatim>\<open>try\<close>. A payload that does not parse is \<^verbatim>\<open>None\<close>.
\<close>

definition onMessage_chat ::
  "(string \<Rightarrow> verify_result) \<Rightarrow> handle \<Rightarrow> parsedData option \<Rightarrow> chat_state
     \<Rightarrow> chat_state \<times> effect list" where
  "onMessage_chat verifyToken ws data s =
     (case sockets_chat s ws of
        None \<Rightarrow> (s, [])
      | Some w \<Rightarrow>
          (case data of
             None \<Rightarrow> (s, [handling_error])
           | Some pd \<Rightarrow>
               if event pd = Some ''authenticate'' then authenticate_chat verifyToken ws pd s
               else if event pd = Some ''locationUpdate'' then locationUpdate ws w pd s
               else if event pd = Some ''subscribeToLocation'' then subscribeToLocation ws w pd s
               else if event pd = Some ''message'' then message_chat ws w pd s
               else if event pd = Some ''fetchChats'' then fetchChats ws w pd s
               else if event pd = Some ''unReadMessages'' then unReadMessages ws w pd s
               else if event pd = Some ''messageList'' then messageList ws w s
               else (s, [Log ''Unknown event''])))"

text \<open>The \<^verbatim>\<open>close\<close> handler of a connection (lines 599 to 616).\<close>

definition onClose_chat :: "handle \<Rightarrow> chat_state \<Rightarrow> chat_state \<times> effect list" where
  "onClose_chat ws s =
     (case (case sockets_chat s ws of None \<Rightarrow> None | Some w \<Rightarrow> identity w) of
        None \<Rightarrow> (s, [Log ''User disconnected''])
      | Some u \<Rightarrow>
          (let s1 = s\<lparr>onlineUsers_chat := onlineUsers_chat s - {u},
                      userSockets := (userSockets s)(u := None)\<rparr>;
               es = broadcastToAll s1 (UserStatus u False);
               s2 = s1\<lparr>locationSubscribers :=
                         (\<lambda>t. map_option (removeAll ws) (locationSubscribers s1 t))\<rparr>
           in (s2, es @ [Log ''User disconnected''])))"

text \<open>
  A \<^verbatim>\<open>close\<close> event: the library's own listener, registered first, has marked the socket
  closed and dropped it from \<^verbatim>\<open>wss.clients\<close> when the handler runs.
\<close>

definition close_event_chat :: "handle \<Rightarrow> chat_state \<Rightarrow> chat_state \<times> effect list" where
  "close_event_chat ws s =
     onClose_chat ws ((update_socket_chat ws (\<lambda>x. x\<lparr>readyState := CLOSED\<rparr>) s)
                        \<lparr>clients_chat := removeAll ws (clients_chat s)\<rparr>)"

text \<open>\<^verbatim>\<open>wss.on("connection", ...)\<close> (lines 334 to 335): a new open socket with no fields set.\<close>

definition onConnection_chat :: "handle \<Rightarrow> chat_state \<Rightarrow> chat_state \<times> effect list" where
  "onConnection_chat ws s =
     (let w = \<lparr> readyState = OPEN, userId = None, userRole = None, userName = None,
                 isAlive = None, path = None \<rparr>
      in (s\<lparr>sockets_chat := (sockets_chat s)(ws \<mapsto> w),
            clients_chat := (if ws \<in> set (clients_chat s) then clients_chat s
                             else clients_chat s @ [ws])\<rparr>,
          [Log ''A user connected'']))"

section \<open>Vocabulary of the properties and sample states\<close>

text \<open>
  The target of a \<^verbatim>\<open>callUser\<close>: the registered socket of \<^verbatim>\<open>toUserId\<close>, when it is open
  and carries the Host role.
\<close>

definition callee :: "call_state \<Rightarrow> parsedData \<Rightarrow> handle option" where
  "callee s pd =
     (case toUserId pd of
        None \<Rightarrow> None
      | Some t \<Rightarrow>
          (case onlineUsers s t of
             None \<Rightarrow> None
           | Some (h, p) \<Rightarrow>
               (case sockets s h of
                  None \<Rightarrow> None
                | Some r \<Rightarrow>
                    if readyState r = OPEN \<and> userRole r = Some UserRole_Host then Some h
                    else None)))"

text \<open>The three refusals of a \<^verbatim>\<open>callUser\<close>, in the order the claim gives them.\<close>

definition callUser_error :: "ExtendedWebSocket \<Rightarrow> parsedData \<Rightarrow> string" where
  "callUser_error w pd =
     (if userRole w \<noteq> Some UserRole_Client then ''Only Client can initiate a call.''
      else if callType pd \<notin> {Some ''audio'', Some ''video''}
        then ''Invalid or missing callType. Must be 'audio' or 'video'.''
      else ''Host not available or invalid recipient.'')"

text \<open>A socket that has not answered the previous probe.\<close>

definition unanswered :: "call_state \<Rightarrow> handle \<Rightarrow> bool" where
  "unanswered s h = (case sockets s h of None \<Rightarrow> False | Some w \<Rightarrow> isAlive w = Some False)"

text \<open>What one tick of the liveness interval does to a socket.\<close>

definition probe :: "ExtendedWebSocket \<Rightarrow> ExtendedWebSocket" where
  "probe w = (if isAlive w = Some False then begin_closing w else w\<lparr>isAlive := Some False\<rparr>)"

text \<open>
  A sample state of the call-signaling broker: alice (Client) on socket 0, bob (Host) on
  socket 1 with a probe unanswered, and socket 2 connected but not authenticated, all on
  the path \<^verbatim>\<open>/chat\<close>.
\<close>

definition ex_sock :: "string option \<Rightarrow> string option \<Rightarrow> bool option \<Rightarrow> ExtendedWebSocket" where
  "ex_sock u r a = \<lparr> readyState = OPEN, userId = u, userRole = r, userName = None,
                     isAlive = a, path = Some ''/chat'' \<rparr>"

definition ex_call :: call_state where
  "ex_call = \<lparr> sockets = [0 \<mapsto> ex_sock (Some ''alice'') (Some ''Client'') (Some True),
                           1 \<mapsto> ex_sock (Some ''bob'') (Some ''Host'') (Some False),
                           2 \<mapsto> ex_sock None None (Some True)],
               clients = [0, 1, 2],
               onlineUsers = [''alice'' \<mapsto> (0, Some ''/chat''), ''bob'' \<mapsto> (1, Some ''/chat'')],
               onlineCouriers = [''alice'' \<mapsto> 0] \<rparr>"

text \<open>The same state with alice connected on the path \<^verbatim>\<open>/driver-location\<close> instead.\<close>

definition ex_driver :: call_state where
  "ex_driver = ex_call\<lparr>sockets := (sockets ex_call)
       (0 \<mapsto> (ex_sock (Some ''alice'') (Some ''Client'') (Some True))\<lparr>path := Some ''/driver-location''\<rparr>),
     onlineUsers := (onlineUsers ex_call)(''alice'' \<mapsto> (0, Some ''/driver-location''))\<rparr>"

text \<open>
  A sample verifier: the token \<^verbatim>\<open>alice-host\<close> is alice's after her role became Host,
  \<^verbatim>\<open>carol\<close> is carol's, and any other token is rejected by throwing.
\<close>

definition ex_verify :: "string \<Rightarrow> verify_result" where
  "ex_verify tk =
     (if tk = ''alice-host''
        then Returns (Some \<lparr> user_id = ''alice'', user_role = ''Host'', user_email = ''alice@example.org'' \<rparr>)
      else if tk = ''carol''
        then Returns (Some \<lparr> user_id = ''carol'', user_role = ''Client'', user_email = ''carol@example.org'' \<rparr>)
      else Throws)"

text \<open>
  A sample state of the chat and location broker: alice on socket 0 and bob on socket 1,
  both authenticated, socket 2 connected but not authenticated, an empty database that
  is up, and nobody subscribed to anybody.
\<close>

definition ex_sock_chat :: "string option \<Rightarrow> ExtendedWebSocket" where
  "ex_sock_chat u = \<lparr> readyState = OPEN, userId = u, userRole = None, userName = None,
                       isAlive = None, path = None \<rparr>"

definition ex_store :: store where
  "ex_store = \<lparr> rooms = [], chats = [], users = [], available = True, nextId = 0, clock = 0 \<rparr>"

definition ex_chat :: chat_state where
  "ex_chat = \<lparr> sockets_chat = [0 \<mapsto> ex_sock_chat (Some ''alice''),
                                1 \<mapsto> ex_sock_chat (Some ''bob''),
                                2 \<mapsto> ex_sock_chat None],
               clients_chat = [0, 1, 2],
               onlineUsers_chat = {''alice'', ''bob''},
               userSockets = [''alice'' \<mapsto> 0, ''bob'' \<mapsto> 1],
               userLocations = Map.empty,
               locationSubscribers = Map.empty,
               db = ex_store \<rparr>"

text \<open>The subscribers of a tracked user, none where the index has no entry.\<close>

definition subscribers_of :: "chat_state \<Rightarrow> string \<Rightarrow> handle list" where
  "subscribers_of s t = (case locationSubscribers s t of None \<Rightarrow> [] | Some hs \<Rightarrow> hs)"

text \<open>
  The sample re-authentication: socket 2 presents alice's new token while alice's
  earlier Client session on socket 0 is registered on the same path.
\<close>

definition reauth :: "call_state \<times> effect list" where
  "reauth = onMessage ex_verify 2
          (Some (noFields\<lparr>event := Some ''authenticate'', token := Some ''alice-host''\<rparr>)) ex_call"

section \<open>The liveness interval\<close>

lemma interval_client_sockets:
  "sockets (fst (interval_client h se)) k =
     (if k = h then map_option probe (sockets (fst se) h) else sockets (fst se) k)"
  by (auto simp: interval_client_def update_socket_def probe_def Let_def split: option.splits)

lemma interval_client_onlineUsers:
  "onlineUsers (fst (interval_client h se)) u =
     (if (\<exists>w. sockets (fst se) h = Some w \<and> isAlive w = Some False \<and> identity w = Some u)
      then None else onlineUsers (fst se) u)"
  by (auto simp: interval_client_def update_socket_def Let_def split: option.splits)

lemma interval_client_onlineCouriers:
  "onlineCouriers (fst (interval_client h se)) u =
     (if (\<exists>w. sockets (fst se) h = Some w \<and> isAlive w = Some False \<and> identity w = Some u
              \<and> userRole w = Some UserRole_Client)
      then None else onlineCouriers (fst se) u)"
  by (auto simp: interval_client_def update_socket_def Let_def split: option.splits)

lemma fold_interval_sockets:
  "distinct hs \<Longrightarrow> sockets (fst (fold interval_client hs se)) k =
     (if k \<in> set hs then map_option probe (sockets (fst se) k) else sockets (fst se) k)"
proof (induction hs arbitrary: se)
  case Nil
  then show ?case by simp
next
  case (Cons h hs)
  then show ?case by (auto simp: interval_client_sockets)
qed

lemma fold_interval_onlineUsers_None:
  "onlineUsers (fst se) u = None \<Longrightarrow> onlineUsers (fst (fold interval_client hs se)) u = None"
  by (induction hs arbitrary: se) (auto simp: interval_client_onlineUsers)

lemma fold_interval_onlineCouriers_None:
  "onlineCouriers (fst se) u = None \<Longrightarrow> onlineCouriers (fst (fold interval_client hs se)) u = None"
  by (induction hs arbitrary: se) (auto simp: interval_client_onlineCouriers)

lemma fold_interval_onlineUsers:
  "distinct hs \<Longrightarrow> h \<in> set hs \<Longrightarrow> sockets (fst se) h = Some w \<Longrightarrow> isAlive w = Some False \<Longrightarrow>
   identity w = Some u \<Longrightarrow>
   onlineUsers (fst (fold interval_client hs se)) u = None"
proof (induction hs arbitrary: se)
  case Nil
  then show ?case by simp
next
  case (Cons a hs)
  show ?case
  proof (cases "a = h")
    case True
    with Cons.prems have "onlineUsers (fst (interval_client a se)) u = None"
      by (simp add: interval_client_onlineUsers)
    then show ?thesis by (simp add: fold_interval_onlineUsers_None)
  next
    case False
    with Cons.prems have "sockets (fst (interval_client a se)) h = Some w"
      by (simp add: interval_client_sockets)
    with Cons False show ?thesis by auto
  qed
qed

lemma fold_interval_onlineCouriers:
  "distinct hs \<Longrightarrow> h \<in> set hs \<Longrightarrow> sockets (fst se) h = Some w \<Longrightarrow> isAlive w = Some False \<Longrightarrow>
   identity w = Some u \<Longrightarrow> userRole w = Some UserRole_Client \<Longrightarrow>
   onlineCouriers (fst (fold interval_client hs se)) u = None"
proof (induction hs arbitrary: se)
  case Nil
  then show ?case by simp
next
  case (Cons a hs)
  show ?case
  proof (cases "a = h")
    case True
    with Cons.prems have "onlineCouriers (fst (interval_client a se)) u = None"
      by (simp add: interval_client_onlineCouriers)
    then show ?thesis by (simp add: fold_interval_onlineCouriers_None)
  next
    case False
    with Cons.prems have "sockets (fst (interval_client a se)) h = Some w"
      by (simp add: interval_client_sockets)
    with Cons False show ?thesis by auto
  qed
qed

lemma interval_client_effects:
  "snd (interval_client h se) =
     snd se @ map (\<lambda>h. if unanswered (fst se) h then Terminate h else Ping h)
                 (filter (\<lambda>h. sockets (fst se) h \<noteq> None) [h])"
  by (auto simp: interval_client_def unanswered_def Let_def split: option.splits)

lemma fold_interval_effects:
  "distinct hs \<Longrightarrow> snd (fold interval_client hs se) =
     snd se @ map (\<lambda>h. if unanswered (fst se) h then Terminate h else Ping h)
                 (filter (\<lambda>h. sockets (fst se) h \<noteq> None) hs)"
proof (induction hs arbitrary: se)
  case Nil
  then show ?case by simp
next
  case (Cons h hs)
  have same: "\<And>k. k \<in> set hs \<Longrightarrow> sockets (fst (interval_client h se)) k = sockets (fst se) k"
    using Cons.prems by (auto simp: interval_client_sockets)
  have f: "filter (\<lambda>k. sockets (fst (interval_client h se)) k \<noteq> None) hs
         = filter (\<lambda>k. sockets (fst se) k \<noteq> None) hs"
    by (rule filter_cong) (simp_all add: same)
  have m: "map (\<lambda>k. if unanswered (fst (interval_client h se)) k then Terminate k else Ping k)
               (filter (\<lambda>k. sockets (fst se) k \<noteq> None) hs)
         = map (\<lambda>k. if unanswered (fst se) k then Terminate k else Ping k)
               (filter (\<lambda>k. sockets (fst se) k \<noteq> None) hs)"
    by (rule map_cong) (simp_all add: same unanswered_def)
  have "snd (fold interval_client hs (interval_client h se))
      = snd (interval_client h se)
        @ map (\<lambda>k. if unanswered (fst (interval_client h se)) k then Terminate k else Ping k)
              (filter (\<lambda>k. sockets (fst (interval_client h se)) k \<noteq> None) hs)"
    using Cons.IH[of "interval_client h se"] Cons.prems by simp
  then have "snd (fold interval_client hs (interval_client h se))
      = snd (interval_client h se)
        @ map (\<lambda>k. if unanswered (fst se) k then Terminate k else Ping k)
              (filter (\<lambda>k. sockets (fst se) k \<noteq> None) hs)"
    by (simp only: f m)
  then show ?case by (simp add: interval_client_effects)
qed

lemma interval_tick_effects:
  "distinct (clients s) \<Longrightarrow> snd (interval_tick s) =
     map (\<lambda>h. if unanswered s h then Terminate h else Ping h)
         (filter (\<lambda>h. sockets s h \<noteq> None) (clients s))"
  by (simp add: interval_tick_def fold_interval_effects)

lemma interval_tick_Terminate:
  "distinct (clients s) \<Longrightarrow>
   Terminate h \<in> set (snd (interval_tick s)) \<longleftrightarrow> h \<in> set (clients s) \<and> unanswered s h"
  by (auto simp: interval_tick_effects unanswered_def split: option.splits if_splits)

lemma interval_tick_Ping:
  "distinct (clients s) \<Longrightarrow>
   Ping h \<in> set (snd (interval_tick s)) \<longleftrightarrow>
     h \<in> set (clients s) \<and> sockets s h \<noteq> None \<and> \<not> unanswered s h"
  by (auto simp: interval_tick_effects unanswered_def split: option.splits if_splits)

lemma interval_client_as_onClose:
  assumes "sockets s ws = Some w" "isAlive w = Some False"
  shows "onlineUsers (fst (interval_client ws (s, []))) = onlineUsers (onClose ws s)"
    and "onlineCouriers (fst (interval_client ws (s, []))) = onlineCouriers (onClose ws s)"
  using assms
  by (simp_all add: interval_client_def onClose_def update_socket_def Let_def split: option.splits)

section \<open>Claims\<close>

subsection \<open>The authentication gate\<close>

lemma onMessage_chat_unauthenticated:
  assumes "sockets_chat s ws = Some w" and "identity w = None"
    and "event pd \<noteq> Some ''authenticate''"
  shows "fst (onMessage_chat verifyToken ws (Some pd) s) = s"
    and "sent (snd (onMessage_chat verifyToken ws (Some pd) s)) = []"
  using assms
  by (simp_all add: onMessage_chat_def locationUpdate_def subscribeToLocation_def message_chat_def
        fetchChats_def unReadMessages_def messageList_def)

text \<open>
  Claim C1, as amended. In the call-signaling broker, a connection that carries no
  identity and sends an envelope whose tag is not \<^verbatim>\<open>authenticate\<close> gets the error envelope
  "Please authenticate first" and the state is left as it was. In the chat and location
  broker such an envelope leaves the state as it was too, but nothing is sent back: every
  handler there returns silently when the socket has no user id.
\<close>

theorem unauthenticated_rejected:
  assumes "sockets s ws = Some w" and "identity w = None"
    and "event pd \<noteq> Some ''authenticate''"
    and "sockets_chat s' ws' = Some w'" and "identity w' = None"
    and "event pd' \<noteq> Some ''authenticate''"
  shows "onMessage verifyToken ws (Some pd) s
           = (s, [Log ''Received event'', Send ws (Err ''Please authenticate first'')])
       \<and> fst (onMessage_chat verifyToken ws' (Some pd') s') = s'
       \<and> sent (snd (onMessage_chat verifyToken ws' (Some pd') s')) = []"
  using assms onMessage_chat_unauthenticated[of s' ws' w' pd' verifyToken]
  by (simp add: onMessage_def)

theorem unauthenticated_rejected_witness:
  "sockets ex_call 2 = Some (ex_sock None None (Some True))
   \<and> identity (ex_sock None None (Some True)) = None
   \<and> event (noFields\<lparr>event := Some ''callUser''\<rparr>) \<noteq> Some ''authenticate''
   \<and> sockets_chat ex_chat 2 = Some (ex_sock_chat None)
   \<and> identity (ex_sock_chat None) = None
   \<and> event (noFields\<lparr>event := Some ''message''\<rparr>) \<noteq> Some ''authenticate''
   \<and> onMessage ex_verify 2 (Some (noFields\<lparr>event := Some ''callUser''\<rparr>)) ex_call
        = (ex_call, [Log ''Received event'', Send 2 (Err ''Please authenticate first'')])
   \<and> fst (onMessage_chat ex_verify 2 (Some (noFields\<lparr>event := Some ''message''\<rparr>)) ex_chat) = ex_chat
   \<and> sent (snd (onMessage_chat ex_verify 2 (Some (noFields\<lparr>event := Some ''message''\<rparr>)) ex_chat)) = []"
proof -
  have h: "sockets ex_call 2 = Some (ex_sock None None (Some True))"
    "identity (ex_sock None None (Some True)) = None"
    "event (noFields\<lparr>event := Some ''callUser''\<rparr>) \<noteq> Some ''authenticate''"
    "sockets_chat ex_chat 2 = Some (ex_sock_chat None)"
    "identity (ex_sock_chat None) = None"
    "event (noFields\<lparr>event := Some ''message''\<rparr>) \<noteq> Some ''authenticate''"
    by (simp_all add: ex_call_def ex_chat_def identity_def ex_sock_def ex_sock_chat_def)
  show ?thesis
    using h unauthenticated_rejected [OF h, of ex_verify] by simp
qed

text \<open>
  The claim as stated fails in the chat and location broker: an unauthenticated
  \<^verbatim>\<open>subscribeToLocation\<close> is dropped without any envelope.
\<close>

theorem unauthenticated_chat_counterexample:
  "sockets_chat ex_chat 2 = Some (ex_sock_chat None)
   \<and> identity (ex_sock_chat None) = None
   \<and> onMessage_chat ex_verify 2
        (Some (noFields\<lparr>event := Some ''subscribeToLocation'', targetUserId := Some ''bob''\<rparr>)) ex_chat
       = (ex_chat, [])"
  by (simp add: ex_chat_def identity_def ex_sock_chat_def onMessage_chat_def noFields_def
        subscribeToLocation_def)

subsection \<open>Call signaling\<close>

lemma handleParcelChatMessage_callUser:
  assumes "event pd = Some ''callUser''"
  shows "sent (handleParcelChatMessage ws w pd s) =
     (case (if userRole w = Some UserRole_Client \<and> callType pd \<in> {Some ''audio'', Some ''video''}
            then callee s pd else None) of
        Some h \<Rightarrow> [(h, IncomingCall (userId w) (offer pd) (callType pd))]
      | None \<Rightarrow> [(ws, Err (callUser_error w pd))])"
  using assms
  by (auto simp: handleParcelChatMessage_def callee_def callUser_error_def
           split: option.splits prod.splits)

text \<open>
  Claim C6, as amended. For a \<^verbatim>\<open>callUser\<close> event from an authenticated connection whose
  path is not \<^verbatim>\<open>/driver-location\<close>, the state is left as it was and exactly one envelope
  is put on the wire: the \<^verbatim>\<open>incomingCall\<close> with the caller's id, the offer and the call
  type, sent to the target, when the caller is a Client, the call type is audio or video
  and the target's registered socket is open with the Host role; otherwise one error
  envelope to the caller, the role refusal before the call type refusal before the
  unavailable target.
\<close>

theorem callUser_relay:
  assumes "sockets s ws = Some w" and "identity w = Some a"
    and "path w \<noteq> Some ''/driver-location''"
    and "event pd = Some ''callUser''"
  shows "fst (onMessage verifyToken ws (Some pd) s) = s
       \<and> sent (snd (onMessage verifyToken ws (Some pd) s)) =
          (case (if userRole w = Some UserRole_Client \<and> callType pd \<in> {Some ''audio'', Some ''video''}
                 then callee s pd else None) of
             Some h \<Rightarrow> [(h, IncomingCall (userId w) (offer pd) (callType pd))]
           | None \<Rightarrow> [(ws, Err (callUser_error w pd))])"
proof -
  have "onMessage verifyToken ws (Some pd) s
          = (s, Log ''Received event'' # handleParcelChatMessage ws w pd s)"
    using assms by (simp add: onMessage_def)
  then show ?thesis
    using handleParcelChatMessage_callUser[OF assms(4), of ws w s] by simp
qed

theorem callUser_relay_witness:
  "sockets ex_call 0 = Some (ex_sock (Some ''alice'') (Some ''Client'') (Some True))
   \<and> identity (ex_sock (Some ''alice'') (Some ''Client'') (Some True)) = Some ''alice''
   \<and> path (ex_sock (Some ''alice'') (Some ''Client'') (Some True)) \<noteq> Some ''/driver-location''
   \<and> sent (snd (onMessage ex_verify 0
        (Some (noFields\<lparr>event := Some ''callUser'', toUserId := Some ''bob'', callType := Some ''video''\<rparr>))
        ex_call))
     = [(1, IncomingCall (Some ''alice'') None (Some ''video''))]"
proof -
  let ?pd = "noFields\<lparr>event := Some ''callUser'', toUserId := Some ''bob'', callType := Some ''video''\<rparr>"
  have h: "sockets ex_call 0 = Some (ex_sock (Some ''alice'') (Some ''Client'') (Some True))"
    "identity (ex_sock (Some ''alice'') (Some ''Client'') (Some True)) = Some ''alice''"
    "path (ex_sock (Some ''alice'') (Some ''Client'') (Some True)) \<noteq> Some ''/driver-location''"
    "event ?pd = Some ''callUser''"
    by (simp_all add: ex_call_def ex_sock_def identity_def)
  show ?thesis
    using h callUser_relay [OF h, of ex_verify]
    by (simp add: callee_def ex_call_def ex_sock_def noFields_def UserRole_Client_def
          UserRole_Host_def)
qed

text \<open>
  The claim as stated fails on the path \<^verbatim>\<open>/driver-location\<close>, where the message handler
  only writes to the console (lines 146 to 147): alice, an authenticated Client, calls
  bob, an open Host, with a valid call type, and nothing is relayed or answered.
\<close>

theorem callUser_driver_location_counterexample:
  "map_option identity (sockets ex_driver 0) = Some (Some ''alice'')
   \<and> map_option userRole (sockets ex_driver 0) = Some (Some UserRole_Client)
   \<and> callee ex_driver
        (noFields\<lparr>event := Some ''callUser'', toUserId := Some ''bob'', callType := Some ''video''\<rparr>)
       = Some 1
   \<and> onMessage ex_verify 0
        (Some (noFields\<lparr>event := Some ''callUser'', toUserId := Some ''bob'', callType := Some ''video''\<rparr>))
        ex_driver
       = (ex_driver, [Log ''Received event'', Log ''Handling driver location update''])"
  by (simp add: ex_driver_def ex_call_def ex_sock_def identity_def noFields_def callee_def
        onMessage_def UserRole_Client_def UserRole_Host_def)

subsection \<open>Liveness\<close>

text \<open>
  Claim C7. On a tick of the liveness interval, a client whose \<^verbatim>\<open>isAlive\<close> flag is false is
  terminated and not probed, the registry has no entry for its identity afterwards, nor
  the courier index when its role is Client, exactly what the \<^verbatim>\<open>close\<close> handler removes;
  any other client has its flag set to false and is sent a probe. The \<^verbatim>\<open>pong\<close> handler sets
  the flag back to true. The interval runs every 30 seconds.
\<close>

theorem liveness_tick:
  assumes "distinct (clients s)" and "ws \<in> set (clients s)" and "sockets s ws = Some w"
  shows "(if isAlive w = Some False
          then sockets (fst (interval_tick s)) ws = Some (begin_closing w)
             \<and> Terminate ws \<in> set (snd (interval_tick s))
             \<and> Ping ws \<notin> set (snd (interval_tick s))
             \<and> (case identity w of
                  None \<Rightarrow> True
                | Some u \<Rightarrow>
                    onlineUsers (fst (interval_tick s)) u = None
                  \<and> (userRole w = Some UserRole_Client
                       \<longrightarrow> onlineCouriers (fst (interval_tick s)) u = None))
             \<and> onlineUsers (fst (interval_client ws (s, []))) = onlineUsers (onClose ws s)
             \<and> onlineCouriers (fst (interval_client ws (s, []))) = onlineCouriers (onClose ws s)
          else sockets (fst (interval_tick s)) ws = Some (w\<lparr>isAlive := Some False\<rparr>)
             \<and> Ping ws \<in> set (snd (interval_tick s))
             \<and> Terminate ws \<notin> set (snd (interval_tick s)))
       \<and> sockets (heartbeat ws s) ws = Some (w\<lparr>isAlive := Some True\<rparr>)
       \<and> interval_period_ms = 30 * 1000"
proof -
  have sock: "sockets (fst (interval_tick s)) ws = Some (probe w)"
    using assms by (simp add: interval_tick_def fold_interval_sockets)
  have trm: "Terminate ws \<in> set (snd (interval_tick s)) \<longleftrightarrow> isAlive w = Some False"
    using assms by (simp add: interval_tick_Terminate unanswered_def)
  have ping: "Ping ws \<in> set (snd (interval_tick s)) \<longleftrightarrow> isAlive w \<noteq> Some False"
    using assms by (simp add: interval_tick_Ping unanswered_def)
  have users: "onlineUsers (fst (interval_tick s)) u = None"
    if "isAlive w = Some False" "identity w = Some u" for u
    unfolding interval_tick_def
    using assms that fold_interval_onlineUsers[of "clients s" ws "(s, [])" w u] by simp
  have couriers: "onlineCouriers (fst (interval_tick s)) u = None"
    if "isAlive w = Some False" "identity w = Some u" "userRole w = Some UserRole_Client" for u
    unfolding interval_tick_def
    using assms that fold_interval_onlineCouriers[of "clients s" ws "(s, [])" w u] by simp
  have tick: "if isAlive w = Some False
         then sockets (fst (interval_tick s)) ws = Some (begin_closing w)
            \<and> Terminate ws \<in> set (snd (interval_tick s))
            \<and> Ping ws \<notin> set (snd (interval_tick s))
            \<and> (case identity w of
                 None \<Rightarrow> True
               | Some u \<Rightarrow>
                   onlineUsers (fst (interval_tick s)) u = None
                 \<and> (userRole w = Some UserRole_Client
                      \<longrightarrow> onlineCouriers (fst (interval_tick s)) u = None))
            \<and> onlineUsers (fst (interval_client ws (s, []))) = onlineUsers (onClose ws s)
            \<and> onlineCouriers (fst (interval_client ws (s, []))) = onlineCouriers (onClose ws s)
         else sockets (fst (interval_tick s)) ws = Some (w\<lparr>isAlive := Some False\<rparr>)
            \<and> Ping ws \<in> set (snd (interval_tick s))
            \<and> Terminate ws \<notin> set (snd (interval_tick s))"
  proof (cases "isAlive w = Some False")
    case True
    have reg: "case identity w of
                 None \<Rightarrow> True
               | Some u \<Rightarrow>
                   onlineUsers (fst (interval_tick s)) u = None
                 \<and> (userRole w = Some UserRole_Client \<longrightarrow> onlineCouriers (fst (interval_tick s)) u = None)"
      using users[OF True] couriers[OF True] by (simp split: option.splits)
    show ?thesis
      using True sock trm ping reg interval_client_as_onClose[OF assms(3) True]
      by (simp add: probe_def)
  next
    case False
    then show ?thesis using sock trm ping by (simp add: probe_def)
  qed
  have pong: "sockets (heartbeat ws s) ws = Some (w\<lparr>isAlive := Some True\<rparr>)"
    using assms(3) by (simp add: heartbeat_def update_socket_def)
  have period: "interval_period_ms = 30 * 1000"
    by (simp add: interval_period_ms_def)
  show ?thesis
    by (rule conjI[OF tick conjI[OF pong period]])
qed

theorem liveness_tick_witness:
  "distinct (clients ex_call) \<and> 1 \<in> set (clients ex_call)
   \<and> sockets ex_call 1 = Some (ex_sock (Some ''bob'') (Some ''Host'') (Some False))
   \<and> sockets (fst (interval_tick ex_call)) 1
       = Some (begin_closing (ex_sock (Some ''bob'') (Some ''Host'') (Some False)))
   \<and> Terminate 1 \<in> set (snd (interval_tick ex_call))
   \<and> onlineUsers (fst (interval_tick ex_call)) ''bob'' = None
   \<and> sockets (heartbeat 1 ex_call) 1 = Some (ex_sock (Some ''bob'') (Some ''Host'') (Some True))"
proof -
  have h: "distinct (clients ex_call)" "1 \<in> set (clients ex_call)"
    "sockets ex_call 1 = Some (ex_sock (Some ''bob'') (Some ''Host'') (Some False))"
    by (simp_all add: ex_call_def)
  show ?thesis
    using h liveness_tick [OF h]
    by (simp add: ex_sock_def identity_def)
qed

subsection \<open>Registration and eviction in the call-signaling broker\<close>

lemma authenticate_evicts_same_path:
  assumes "sockets s ws = Some w" and "event pd = Some ''authenticate''"
    and "token pd = Some tk" and "tk \<noteq> []" and "verifyToken tk = Returns (Some u)"
    and "onlineUsers s (user_id u) = Some (h, path w)" and "sockets s h = Some w0"
    and "h \<noteq> ws"
  shows "sockets (fst (onMessage verifyToken ws (Some pd) s)) h = Some (begin_closing w0)"
    and "onlineUsers (fst (onMessage verifyToken ws (Some pd) s)) (user_id u) = Some (ws, path w)"
    and "onlineCouriers (fst (onMessage verifyToken ws (Some pd) s)) (user_id u)
           = (if user_role u = UserRole_Client then Some ws else onlineCouriers s (user_id u))"
    and "snd (onMessage verifyToken ws (Some pd) s)
           = [Log ''Received event'', Close h, Send ws (Authenticated (user_id u) (user_role u) True)]"
  using assms
  by (simp_all add: onMessage_def authenticate_def update_socket_def Let_def)

text \<open>
  Claim C2. The registry is a map keyed by the identity, so it never holds two entries
  for one identity, and a same-path re-authentication closes the earlier socket and
  replaces its registry entry, as the lemma above shows. The courier index is another
  matter: line 115 tests the role of the new token, where the \<^verbatim>\<open>close\<close> handler and the
  liveness interval test the role of the socket they remove. When alice, registered as a
  Client on socket 0, authenticates again on the same path with a token that carries the
  Host role, her earlier socket is closed and the registry points to the new socket, but
  the courier index still maps her to the closed socket 0.
\<close>

theorem reauthenticate_with_new_role_keeps_courier_entry:
  "onlineUsers ex_call ''alice'' = Some (0, Some ''/chat'')
   \<and> onlineCouriers ex_call ''alice'' = Some 0
   \<and> map_option path (sockets ex_call 2) = Some (Some ''/chat'')
   \<and> snd reauth = [Log ''Received event'', Close 0, Send 2 (Authenticated ''alice'' ''Host'' True)]
   \<and> map_option readyState (sockets (fst reauth) 0) = Some CLOSING
   \<and> onlineUsers (fst reauth) ''alice'' = Some (2, Some ''/chat'')
   \<and> onlineCouriers (fst reauth) ''alice'' = Some 0"
  by (simp add: reauth_def ex_call_def ex_sock_def noFields_def onMessage_def identity_def
        authenticate_def ex_verify_def update_socket_def begin_closing_def UserRole_Client_def Let_def)

subsection \<open>Authentication failures\<close>

lemma call_authenticate_failures_agree:
  assumes "sockets s ws = Some w" and "event pd = Some ''authenticate''"
    and "\<not> truthy (token pd) \<or> (\<exists>tk. token pd = Some tk \<and> verifyToken tk \<in> {Throws, Returns None})"
  shows "fst (onMessage verifyToken ws (Some pd) s) = s"
    and "\<exists>m. sent (snd (onMessage verifyToken ws (Some pd) s)) = [(ws, Err m)]"
  using assms
  by (auto simp: onMessage_def authenticate_def split: option.splits verify_result.splits)

lemma chat_authenticate_failures_close:
  assumes "sockets_chat s ws = Some w" and "event pd = Some ''authenticate''"
    and "\<not> truthy (token pd) \<or> (\<exists>tk. token pd = Some tk \<and> verifyToken tk = Returns None)"
  shows "onMessage_chat verifyToken ws (Some pd) s = (update_socket_chat ws begin_closing s, [Close ws])"
  using assms
  by (auto simp: onMessage_chat_def authenticate_chat_def ws_close_def split: option.splits)

text \<open>
  Claim C8. The call-signaling broker answers every authentication failure with an error
  envelope and keeps the connection, as the lemma above shows. The chat and location
  broker closes the connection when the token is missing or the verifier returns nothing
  (second lemma above), but a verifier that throws lands in the outer \<^verbatim>\<open>catch\<close>: the connection stays open and
  no envelope is sent. On the sample state, a missing token closes socket 2 and a
  rejected token only writes to the console.
\<close>

theorem chat_authenticate_failures_differ:
  "onMessage_chat ex_verify 2 (Some (noFields\<lparr>event := Some ''authenticate''\<rparr>)) ex_chat
     = (update_socket_chat 2 begin_closing ex_chat, [Close 2])
   \<and> onMessage_chat ex_verify 2
        (Some (noFields\<lparr>event := Some ''authenticate'', token := Some ''expired''\<rparr>)) ex_chat
     = (ex_chat, [Log ''WebSocket message handling error''])"
  by (simp add: ex_chat_def ex_sock_chat_def noFields_def onMessage_chat_def
        authenticate_chat_def ws_close_def ex_verify_def handling_error_def)

subsection \<open>Facts about the chat and location broker\<close>

lemma identity_readyState [simp]: "identity (w\<lparr>readyState := r\<rparr>) = identity w"
  by (simp add: identity_def)

lemma is_open_update_userId [simp]:
  "is_open (update_socket_chat ws (\<lambda>x. x\<lparr>userId := v\<rparr>) s) = is_open s"
  by (rule ext) (simp add: is_open_def update_socket_chat_def split: option.splits)

lemma authenticate_chat_success:
  assumes "token pd = Some tk" and "tk \<noteq> []" and "verifyToken tk = Returns (Some u)"
  shows "snd (authenticate_chat verifyToken ws pd s)
           = map (\<lambda>h. Send h (UserStatus (user_id u) True)) (filter (is_open s) (clients_chat s))"
    and "sockets_chat (fst (authenticate_chat verifyToken ws pd s))
           = (sockets_chat s)(ws := map_option (\<lambda>x. x\<lparr>userId := Some (user_id u)\<rparr>) (sockets_chat s ws))"
    and "userSockets (fst (authenticate_chat verifyToken ws pd s)) = (userSockets s)(user_id u \<mapsto> ws)"
    and "onlineUsers_chat (fst (authenticate_chat verifyToken ws pd s)) = insert (user_id u) (onlineUsers_chat s)"
    and "clients_chat (fst (authenticate_chat verifyToken ws pd s)) = clients_chat s"
    and "locationSubscribers (fst (authenticate_chat verifyToken ws pd s)) = locationSubscribers s"
proof -
  let ?s1 = "update_socket_chat ws (\<lambda>x. x\<lparr>userId := Some (user_id u)\<rparr>) s"
  let ?s2 = "?s1\<lparr>onlineUsers_chat := insert (user_id u) (onlineUsers_chat ?s1),
                userSockets := (userSockets ?s1)(user_id u \<mapsto> ws)\<rparr>"
  have r: "authenticate_chat verifyToken ws pd s = (?s2, broadcastToAll ?s2 (UserStatus (user_id u) True))"
    using assms by (simp add: authenticate_chat_def Let_def)
  have o: "is_open ?s2 = is_open s"
    by (rule ext) (simp add: is_open_def update_socket_chat_def split: option.splits)
  show "snd (authenticate_chat verifyToken ws pd s)
           = map (\<lambda>h. Send h (UserStatus (user_id u) True)) (filter (is_open s) (clients_chat s))"
    unfolding r by (simp add: broadcastToAll_def o) (simp add: update_socket_chat_def)
  show "sockets_chat (fst (authenticate_chat verifyToken ws pd s))
           = (sockets_chat s)(ws := map_option (\<lambda>x. x\<lparr>userId := Some (user_id u)\<rparr>) (sockets_chat s ws))"
    unfolding r by (simp add: update_socket_chat_def)
  show "userSockets (fst (authenticate_chat verifyToken ws pd s)) = (userSockets s)(user_id u \<mapsto> ws)"
    unfolding r by (simp add: update_socket_chat_def)
  show "onlineUsers_chat (fst (authenticate_chat verifyToken ws pd s)) = insert (user_id u) (onlineUsers_chat s)"
    unfolding r by (simp add: update_socket_chat_def)
  show "clients_chat (fst (authenticate_chat verifyToken ws pd s)) = clients_chat s"
    unfolding r by (simp add: update_socket_chat_def)
  show "locationSubscribers (fst (authenticate_chat verifyToken ws pd s)) = locationSubscribers s"
    unfolding r by (simp add: update_socket_chat_def)
qed

lemma is_open_closed:
  "is_open ((update_socket_chat ws (\<lambda>x. x\<lparr>readyState := CLOSED\<rparr>) s)\<lparr>clients_chat := cs\<rparr>) h
     \<longleftrightarrow> h \<noteq> ws \<and> is_open s h"
  by (simp add: is_open_def update_socket_chat_def split: option.splits)

lemma close_event_chat_identified:
  assumes "sockets_chat s ws = Some w" and "identity w = Some u"
  shows "snd (close_event_chat ws s)
           = map (\<lambda>h. Send h (UserStatus u False)) (filter (is_open s) (removeAll ws (clients_chat s)))
             @ [Log ''User disconnected'']"
    and "userSockets (fst (close_event_chat ws s)) = (userSockets s)(u := None)"
    and "onlineUsers_chat (fst (close_event_chat ws s)) = onlineUsers_chat s - {u}"
    and "locationSubscribers (fst (close_event_chat ws s))
           = (\<lambda>t. map_option (removeAll ws) (locationSubscribers s t))"
    and "sockets_chat (fst (close_event_chat ws s)) = (sockets_chat s)(ws \<mapsto> w\<lparr>readyState := CLOSED\<rparr>)"
    and "clients_chat (fst (close_event_chat ws s)) = removeAll ws (clients_chat s)"
    and "db (fst (close_event_chat ws s)) = db s"
proof -
  let ?t = "(update_socket_chat ws (\<lambda>x. x\<lparr>readyState := CLOSED\<rparr>) s)\<lparr>clients_chat := removeAll ws (clients_chat s)\<rparr>"
  have w': "sockets_chat ?t ws = Some (w\<lparr>readyState := CLOSED\<rparr>)"
    using assms(1) by (simp add: update_socket_chat_def)
  have i: "identity (w\<lparr>readyState := CLOSED\<rparr>) = Some u"
    using assms(2) by simp
  have f: "filter (is_open (?t\<lparr>onlineUsers_chat := onlineUsers_chat ?t - {u},
                      userSockets := (userSockets ?t)(u := None)\<rparr>)) (removeAll ws (clients_chat s))
         = filter (is_open s) (removeAll ws (clients_chat s))"
    by (rule filter_cong) (auto simp: is_open_def update_socket_chat_def split: option.splits)
  show "snd (close_event_chat ws s)
           = map (\<lambda>h. Send h (UserStatus u False)) (filter (is_open s) (removeAll ws (clients_chat s)))
             @ [Log ''User disconnected'']"
    using w' i f by (simp add: close_event_chat_def onClose_chat_def Let_def broadcastToAll_def)
  show "userSockets (fst (close_event_chat ws s)) = (userSockets s)(u := None)"
    using w' i by (simp add: close_event_chat_def onClose_chat_def Let_def) (simp add: update_socket_chat_def)
  show "onlineUsers_chat (fst (close_event_chat ws s)) = onlineUsers_chat s - {u}"
    using w' i by (simp add: close_event_chat_def onClose_chat_def Let_def) (simp add: update_socket_chat_def)
  show "locationSubscribers (fst (close_event_chat ws s))
           = (\<lambda>t. map_option (removeAll ws) (locationSubscribers s t))"
    using w' i by (simp add: close_event_chat_def onClose_chat_def Let_def) (simp add: update_socket_chat_def)
  show "sockets_chat (fst (close_event_chat ws s)) = (sockets_chat s)(ws \<mapsto> w\<lparr>readyState := CLOSED\<rparr>)"
    using w' i assms(1) by (simp add: close_event_chat_def onClose_chat_def Let_def) (simp add: update_socket_chat_def)
  show "clients_chat (fst (close_event_chat ws s)) = removeAll ws (clients_chat s)"
    using w' i by (simp add: close_event_chat_def onClose_chat_def Let_def)
  show "db (fst (close_event_chat ws s)) = db s"
    using w' i by (simp add: close_event_chat_def onClose_chat_def Let_def) (simp add: update_socket_chat_def)
qed

lemma onMessage_chat_authenticate:
  "sockets_chat s ws = Some w \<Longrightarrow> event pd = Some ''authenticate'' \<Longrightarrow>
   onMessage_chat verifyToken ws (Some pd) s = authenticate_chat verifyToken ws pd s"
  by (simp add: onMessage_chat_def)

lemma sent_append: "sent (xs @ ys) = sent xs @ sent ys"
  by (induction xs rule: sent.induct) simp_all

lemma sent_map_Send: "sent (map (\<lambda>h. Send h m) hs) = map (\<lambda>h. (h, m)) hs"
  by (induction hs) simp_all

lemma is_open_sockets: "sockets_chat s = sockets_chat s' \<Longrightarrow> is_open s = is_open s'"
  by (rule ext) (simp add: is_open_def)

lemma filter_eq_distinct:
  "distinct xs \<Longrightarrow> filter (\<lambda>h. h = x) xs = (if x \<in> set xs then [x] else [])"
  by (induction xs) auto

lemma subscribeToLocation_result:
  assumes "identity w = Some u" and "targetUserId pd = Some t" and "t \<noteq> []"
  shows "fst (subscribeToLocation ws w pd s)
           = s\<lparr>locationSubscribers := (locationSubscribers s)
                 (t \<mapsto> (if ws \<in> set (subscribers_of s t) then subscribers_of s t
                         else subscribers_of s t @ [ws]))\<rparr>"
  using assms by (cases "locationSubscribers s t") (simp_all add: subscribeToLocation_def subscribers_of_def Let_def)

lemma locationUpdate_result:
  assumes "identity w = Some t" and "lat pd = Some la" and "lng pd = Some ln"
  shows "sent (snd (locationUpdate ws w pd s))
           = map (\<lambda>h. (h, LocationUpdate t la ln)) (filter (is_open s) (subscribers_of s t))"
    and "sockets_chat (fst (locationUpdate ws w pd s)) = sockets_chat s"
    and "locationSubscribers (fst (locationUpdate ws w pd s)) = locationSubscribers s"
    and "userLocations (fst (locationUpdate ws w pd s)) = (userLocations s)(t \<mapsto> (la, ln))"
proof -
  let ?s1 = "s\<lparr>userLocations := (userLocations s)(t \<mapsto> (la, ln))\<rparr>"
  let ?upd = "case user_update (db ?s1) t la ln of
                None \<Rightarrow> (?s1, [Log ''DB update error''])
              | Some d \<Rightarrow> (?s1\<lparr>db := d\<rparr>, [])"
  have r: "locationUpdate ws w pd s =
             (fst ?upd, snd ?upd @ map (\<lambda>h. Send h (LocationUpdate t la ln))
                 (filter (is_open (fst ?upd)) (subscribers_of (fst ?upd) t)))"
    using assms by (simp add: locationUpdate_def Let_def subscribers_of_def)
  have k: "sockets_chat (fst ?upd) = sockets_chat s"
    "locationSubscribers (fst ?upd) = locationSubscribers s"
    "userLocations (fst ?upd) = (userLocations s)(t \<mapsto> (la, ln))"
    "sent (snd ?upd) = []"
    by (simp_all split: option.splits)
  have o: "is_open (fst ?upd) = is_open s"
    using k(1) by (rule is_open_sockets)
  have sb: "subscribers_of (fst ?upd) t = subscribers_of s t"
    by (simp only: subscribers_of_def k(2))
  show "sent (snd (locationUpdate ws w pd s))
           = map (\<lambda>h. (h, LocationUpdate t la ln)) (filter (is_open s) (subscribers_of s t))"
    unfolding r by (simp only: snd_conv sent_append k(4) o sb sent_map_Send append_Nil)
  show "sockets_chat (fst (locationUpdate ws w pd s)) = sockets_chat s"
    unfolding r by (simp only: fst_conv k(1))
  show "locationSubscribers (fst (locationUpdate ws w pd s)) = locationSubscribers s"
    unfolding r by (simp only: fst_conv k(2))
  show "userLocations (fst (locationUpdate ws w pd s)) = (userLocations s)(t \<mapsto> (la, ln))"
    unfolding r by (simp only: fst_conv k(3))
qed

subsection \<open>Presence\<close>

text \<open>
  Claim C5, as amended. A successful \<^verbatim>\<open>authenticate\<close> in the chat and location broker
  sends \<^verbatim>\<open>userStatus\<close> with \<^verbatim>\<open>isOnline\<close> true to every client of the server that is open,
  the authenticating connection included, and to no other. The \<^verbatim>\<open>close\<close> of a connection
  that carries an identity sends \<^verbatim>\<open>userStatus\<close> with \<^verbatim>\<open>isOnline\<close> false to every remaining
  client that is open; the closing connection is no longer among them.
\<close>

theorem presence_broadcast:
  assumes "sockets_chat s ws = Some w" and "event pd = Some ''authenticate''"
    and "token pd = Some tk" and "tk \<noteq> []" and "verifyToken tk = Returns (Some u)"
    and "sockets_chat s' ws' = Some w'" and "identity w' = Some i"
  shows "snd (onMessage_chat verifyToken ws (Some pd) s)
           = map (\<lambda>h. Send h (UserStatus (user_id u) True)) (filter (is_open s) (clients_chat s))
       \<and> snd (close_event_chat ws' s')
           = map (\<lambda>h. Send h (UserStatus i False)) (filter (is_open s') (removeAll ws' (clients_chat s')))
             @ [Log ''User disconnected'']"
  using assms
  by (simp add: onMessage_chat_authenticate authenticate_chat_success(1) close_event_chat_identified(1))

theorem presence_broadcast_witness:
  "sockets_chat ex_chat 2 = Some (ex_sock_chat None)
   \<and> event (noFields\<lparr>event := Some ''authenticate'', token := Some ''carol''\<rparr>) = Some ''authenticate''
   \<and> token (noFields\<lparr>event := Some ''authenticate'', token := Some ''carol''\<rparr>) = Some ''carol''
   \<and> ''carol'' \<noteq> []
   \<and> ex_verify ''carol'' = Returns (Some \<lparr> user_id = ''carol'', user_role = ''Client'',
                                           user_email = ''carol@example.org'' \<rparr>)
   \<and> sockets_chat ex_chat 0 = Some (ex_sock_chat (Some ''alice''))
   \<and> identity (ex_sock_chat (Some ''alice'')) = Some ''alice''
   \<and> snd (onMessage_chat ex_verify 2
        (Some (noFields\<lparr>event := Some ''authenticate'', token := Some ''carol''\<rparr>)) ex_chat)
       = [Send 0 (UserStatus ''carol'' True), Send 1 (UserStatus ''carol'' True),
          Send 2 (UserStatus ''carol'' True)]
   \<and> snd (close_event_chat 0 ex_chat)
       = [Send 1 (UserStatus ''alice'' False), Send 2 (UserStatus ''alice'' False),
          Log ''User disconnected'']"
proof -
  have h: "sockets_chat ex_chat 2 = Some (ex_sock_chat None)"
    "event (noFields\<lparr>event := Some ''authenticate'', token := Some ''carol''\<rparr>) = Some ''authenticate''"
    "token (noFields\<lparr>event := Some ''authenticate'', token := Some ''carol''\<rparr>) = Some ''carol''"
    "''carol'' \<noteq> []"
    "ex_verify ''carol'' = Returns (Some \<lparr> user_id = ''carol'', user_role = ''Client'',
                                           user_email = ''carol@example.org'' \<rparr>)"
    "sockets_chat ex_chat 0 = Some (ex_sock_chat (Some ''alice''))"
    "identity (ex_sock_chat (Some ''alice'')) = Some ''alice''"
    by (simp_all add: ex_chat_def ex_sock_chat_def identity_def noFields_def ex_verify_def)
  have o: "filter (is_open ex_chat) (clients_chat ex_chat) = [0, 1, 2]"
    "filter (is_open ex_chat) (removeAll 0 (clients_chat ex_chat)) = [1, 2]"
    by (simp_all add: ex_chat_def is_open_def ex_sock_chat_def)
  show ?thesis
    using h presence_broadcast [where verifyToken = ex_verify and tk = "''carol''", OF h]
    by (simp add: o)
qed

text \<open>
  The claim as stated fails on \<^verbatim>\<open>authenticate\<close>: the connection that comes online is
  open and a client of the server, so \<^verbatim>\<open>broadcastToAll\<close> sends it its own status.
\<close>

theorem presence_broadcast_counterexample:
  "sockets_chat ex_chat 2 = Some (ex_sock_chat None)
   \<and> Send 2 (UserStatus ''carol'' True)
       \<in> set (snd (onMessage_chat ex_verify 2
            (Some (noFields\<lparr>event := Some ''authenticate'', token := Some ''carol''\<rparr>)) ex_chat))"
  by (simp add: ex_chat_def ex_sock_chat_def noFields_def ex_verify_def onMessage_chat_def
        authenticate_chat_def broadcastToAll_def is_open_def update_socket_chat_def Let_def)

text \<open>
  Claim C10. In the chat and location broker, a second connection that authenticates as
  an identity already held by a first connection leaves the first connection untouched
  and takes over the \<^verbatim>\<open>userSockets\<close> entry. When the first connection closes afterwards,
  the identity is removed from \<^verbatim>\<open>onlineUsers\<close> and \<^verbatim>\<open>userSockets\<close>, and the second
  connection, still open and still a client, is told that its own identity went offline.
\<close>

theorem close_of_first_connection_unregisters_second:
  assumes "sockets_chat s c1 = Some w1" and "identity w1 = Some (user_id u)"
    and "sockets_chat s c2 = Some w2" and "readyState w2 = OPEN"
    and "c2 \<in> set (clients_chat s)" and "c1 \<noteq> c2"
    and "event pd = Some ''authenticate''"
    and "token pd = Some tk" and "tk \<noteq> []" and "verifyToken tk = Returns (Some u)"
  shows "sockets_chat (fst (onMessage_chat verifyToken c2 (Some pd) s)) c1 = Some w1
       \<and> Close c1 \<notin> set (snd (onMessage_chat verifyToken c2 (Some pd) s))
       \<and> userSockets (fst (onMessage_chat verifyToken c2 (Some pd) s)) (user_id u) = Some c2
       \<and> userSockets (fst (close_event_chat c1 (fst (onMessage_chat verifyToken c2 (Some pd) s))))
           (user_id u) = None
       \<and> user_id u \<notin> onlineUsers_chat
           (fst (close_event_chat c1 (fst (onMessage_chat verifyToken c2 (Some pd) s))))
       \<and> Send c2 (UserStatus (user_id u) False)
           \<in> set (snd (close_event_chat c1 (fst (onMessage_chat verifyToken c2 (Some pd) s))))
       \<and> sockets_chat (fst (close_event_chat c1 (fst (onMessage_chat verifyToken c2 (Some pd) s)))) c2
           = Some (w2\<lparr>userId := Some (user_id u)\<rparr>)
       \<and> c2 \<in> set (clients_chat
           (fst (close_event_chat c1 (fst (onMessage_chat verifyToken c2 (Some pd) s)))))"
proof -
  let ?r = "onMessage_chat verifyToken c2 (Some pd) s"
  have r: "?r = authenticate_chat verifyToken c2 pd s"
    using assms(3,7) by (rule onMessage_chat_authenticate)
  note a = authenticate_chat_success[where verifyToken = verifyToken and tk = tk, OF assms(8,9,10), of c2 s]
  have k1: "sockets_chat (fst ?r) c1 = Some w1"
    unfolding r using assms(1,6) by (simp add: a(2))
  have k2: "sockets_chat (fst ?r) c2 = Some (w2\<lparr>userId := Some (user_id u)\<rparr>)"
    unfolding r using assms(3) by (simp add: a(2))
  have e1: "Close c1 \<notin> set (snd ?r)"
    unfolding r by (auto simp: a(1))
  have u1: "userSockets (fst ?r) (user_id u) = Some c2"
    unfolding r by (simp add: a(3))
  note c = close_event_chat_identified[OF k1 assms(2)]
  have o2: "is_open (fst ?r) c2"
    using k2 assms(4) by (simp add: is_open_def)
  have cl: "c2 \<in> set (removeAll c1 (clients_chat (fst ?r)))"
    unfolding r using assms(5,6) by (simp add: a(5))
  have e2: "Send c2 (UserStatus (user_id u) False) \<in> set (snd (close_event_chat c1 (fst ?r)))"
    using o2 cl by (simp add: c(1))
  have k3: "sockets_chat (fst (close_event_chat c1 (fst ?r))) c2 = Some (w2\<lparr>userId := Some (user_id u)\<rparr>)"
    using k2 assms(6) by (simp add: c(5))
  show ?thesis
    using k1 e1 u1 e2 k3 cl by (simp add: c(2) c(3) c(6))
qed

theorem close_of_first_connection_unregisters_second_witness:
  "sockets_chat ex_chat 0 = Some (ex_sock_chat (Some ''alice''))
   \<and> identity (ex_sock_chat (Some ''alice'')) = Some ''alice''
   \<and> sockets_chat ex_chat 2 = Some (ex_sock_chat None)
   \<and> readyState (ex_sock_chat None) = OPEN
   \<and> 2 \<in> set (clients_chat ex_chat)
   \<and> ex_verify ''alice-host'' = Returns (Some \<lparr> user_id = ''alice'', user_role = ''Host'',
                                                user_email = ''alice@example.org'' \<rparr>)
   \<and> userSockets (fst (onMessage_chat ex_verify 2
         (Some (noFields\<lparr>event := Some ''authenticate'', token := Some ''alice-host''\<rparr>)) ex_chat))
         ''alice'' = Some 2
   \<and> userSockets (fst (close_event_chat 0 (fst (onMessage_chat ex_verify 2
         (Some (noFields\<lparr>event := Some ''authenticate'', token := Some ''alice-host''\<rparr>)) ex_chat))))
         ''alice'' = None
   \<and> Send 2 (UserStatus ''alice'' False)
       \<in> set (snd (close_event_chat 0 (fst (onMessage_chat ex_verify 2
         (Some (noFields\<lparr>event := Some ''authenticate'', token := Some ''alice-host''\<rparr>)) ex_chat))))
   \<and> sockets_chat (fst (close_event_chat 0 (fst (onMessage_chat ex_verify 2
         (Some (noFields\<lparr>event := Some ''authenticate'', token := Some ''alice-host''\<rparr>)) ex_chat)))) 2
       = Some (ex_sock_chat (Some ''alice''))"
proof -
  let ?u = "\<lparr> user_id = ''alice'', user_role = ''Host'', user_email = ''alice@example.org'' \<rparr>"
  let ?pd = "noFields\<lparr>event := Some ''authenticate'', token := Some ''alice-host''\<rparr>"
  have h: "sockets_chat ex_chat 0 = Some (ex_sock_chat (Some ''alice''))"
    "identity (ex_sock_chat (Some ''alice'')) = Some (user_id ?u)"
    "sockets_chat ex_chat 2 = Some (ex_sock_chat None)"
    "readyState (ex_sock_chat None) = OPEN"
    "2 \<in> set (clients_chat ex_chat)"
    "(0::nat) \<noteq> 2"
    "event ?pd = Some ''authenticate''"
    "token ?pd = Some ''alice-host''"
    "''alice-host'' \<noteq> []"
    "ex_verify ''alice-host'' = Returns (Some ?u)"
    by (simp_all add: ex_chat_def ex_sock_chat_def identity_def noFields_def ex_verify_def)
  show ?thesis
    using h close_of_first_connection_unregisters_second
            [where verifyToken = ex_verify and tk = "''alice-host''", OF h]
    by (simp add: ex_sock_chat_def)
qed

subsection \<open>Chat messages\<close>

text \<open>
  Claim C3. A \<^verbatim>\<open>message\<close> event from an authenticated sender, with a receiver and a text,
  when the store is up and holds no room for the pair in either direction: the store
  gains exactly one room and exactly one chat, the chat goes to the receiver's
  registered socket exactly when that socket is open, and then to the sender.
\<close>

theorem first_message_creates_room_and_chat:
  assumes "sockets_chat s ws = Some w" and "identity w = Some a"
    and "event pd = Some ''message''"
    and "receiverId pd = Some b" and "b \<noteq> []" and "message pd = Some m" and "m \<noteq> []"
    and "available (db s)"
    and "\<forall>r \<in> set (rooms (db s)). \<not> is_room_of a b r"
  shows "let r = \<lparr> room_id = nextId (db s), room_senderId = a, room_receiverId = b \<rparr>;
             c = \<lparr> chat_id = Suc (nextId (db s)), chat_senderId = a, chat_receiverId = b,
                   chat_roomId = nextId (db s), chat_message = m,
                   chat_images = (case images pd of None \<Rightarrow> [] | Some is \<Rightarrow> is),
                   isRead = False, createdAt = clock (db s) \<rparr>;
             res = onMessage_chat verifyToken ws (Some pd) s
         in rooms (db (fst res)) = rooms (db s) @ [r]
          \<and> chats (db (fst res)) = chats (db s) @ [c]
          \<and> sent (snd res) =
              (case userSockets s b of
                 None \<Rightarrow> []
               | Some h \<Rightarrow> if is_open s h then [(h, ChatMessage c)] else [])
              @ [(ws, ChatMessage c)]"
proof -
  have nf: "find (is_room_of a b) (rooms (db s)) = None"
    using assms(9) by (simp add: find_None_iff)
  have "onMessage_chat verifyToken ws (Some pd) s = message_chat ws w pd s"
    using assms(1,3) by (simp add: onMessage_chat_def)
  then show ?thesis
    using assms(2,4-8) nf
    by (simp add: message_chat_def room_findFirst_def room_create_def chat_create_def Let_def
          sent_append split: option.splits)
qed

theorem first_message_creates_room_and_chat_witness:
  "sockets_chat ex_chat 0 = Some (ex_sock_chat (Some ''alice''))
   \<and> identity (ex_sock_chat (Some ''alice'')) = Some ''alice''
   \<and> available (db ex_chat)
   \<and> rooms (db ex_chat) = []
   \<and> rooms (db (fst (onMessage_chat ex_verify 0
        (Some (noFields\<lparr>event := Some ''message'', receiverId := Some ''bob'', message := Some ''hi''\<rparr>))
        ex_chat)))
       = [\<lparr> room_id = 0, room_senderId = ''alice'', room_receiverId = ''bob'' \<rparr>]
   \<and> chats (db (fst (onMessage_chat ex_verify 0
        (Some (noFields\<lparr>event := Some ''message'', receiverId := Some ''bob'', message := Some ''hi''\<rparr>))
        ex_chat)))
       = [\<lparr> chat_id = 1, chat_senderId = ''alice'', chat_receiverId = ''bob'', chat_roomId = 0,
            chat_message = ''hi'', chat_images = [], isRead = False, createdAt = 0 \<rparr>]
   \<and> map fst (sent (snd (onMessage_chat ex_verify 0
        (Some (noFields\<lparr>event := Some ''message'', receiverId := Some ''bob'', message := Some ''hi''\<rparr>))
        ex_chat))) = [1, 0]"
proof -
  let ?pd = "noFields\<lparr>event := Some ''message'', receiverId := Some ''bob'', message := Some ''hi''\<rparr>"
  have h: "sockets_chat ex_chat 0 = Some (ex_sock_chat (Some ''alice''))"
    "identity (ex_sock_chat (Some ''alice'')) = Some ''alice''"
    "event ?pd = Some ''message''"
    "receiverId ?pd = Some ''bob''" "''bob'' \<noteq> []" "message ?pd = Some ''hi''" "''hi'' \<noteq> []"
    "available (db ex_chat)"
    "\<forall>r \<in> set (rooms (db ex_chat)). \<not> is_room_of ''alice'' ''bob'' r"
    by (simp_all add: ex_chat_def ex_sock_chat_def identity_def noFields_def ex_store_def)
  have o: "userSockets ex_chat ''bob'' = Some 1" "is_open ex_chat (Suc 0)"
    "nextId (db ex_chat) = 0" "clock (db ex_chat) = 0" "rooms (db ex_chat) = []"
    "chats (db ex_chat) = []" "images ?pd = None"
    by (simp_all add: ex_chat_def is_open_def ex_sock_chat_def ex_store_def noFields_def)
  show ?thesis
    using h first_message_creates_room_and_chat [OF h, of ex_verify]
    by (simp add: o Let_def)
qed

text \<open>
  Claim C9, as amended. A \<^verbatim>\<open>message\<close> event from an authenticated connection that lacks
  the receiver or the text changes nothing, so the connection stays as it was and no
  room or chat is created; the handler writes "Invalid message payload" to the console
  and sends no envelope.
\<close>

theorem invalid_message_payload_logged:
  assumes "sockets_chat s ws = Some w" and "identity w = Some a"
    and "event pd = Some ''message''"
    and "\<not> (truthy (receiverId pd) \<and> truthy (message pd))"
  shows "onMessage_chat verifyToken ws (Some pd) s = (s, [Log ''Invalid message payload''])"
proof -
  have "message_chat ws w pd s = (s, [Log ''Invalid message payload''])"
  proof (cases "receiverId pd")
    case None
    then show ?thesis using assms(2) by (simp add: message_chat_def)
  next
    case (Some r)
    show ?thesis
    proof (cases "message pd")
      case None
      then show ?thesis using Some assms(2) by (simp add: message_chat_def)
    next
      case (Some m)
      with \<open>receiverId pd = Some r\<close> assms(2,4) show ?thesis
        by (auto simp: message_chat_def)
    qed
  qed
  then show ?thesis using assms(1,3) by (simp add: onMessage_chat_def)
qed

theorem invalid_message_payload_logged_witness:
  "sockets_chat ex_chat 0 = Some (ex_sock_chat (Some ''alice''))
   \<and> identity (ex_sock_chat (Some ''alice'')) = Some ''alice''
   \<and> event (noFields\<lparr>event := Some ''message'', message := Some ''hi''\<rparr>) = Some ''message''
   \<and> \<not> (truthy (receiverId (noFields\<lparr>event := Some ''message'', message := Some ''hi''\<rparr>))
         \<and> truthy (message (noFields\<lparr>event := Some ''message'', message := Some ''hi''\<rparr>)))
   \<and> onMessage_chat ex_verify 0 (Some (noFields\<lparr>event := Some ''message'', message := Some ''hi''\<rparr>))
        ex_chat = (ex_chat, [Log ''Invalid message payload''])"
proof -
  have h: "sockets_chat ex_chat 0 = Some (ex_sock_chat (Some ''alice''))"
    "identity (ex_sock_chat (Some ''alice'')) = Some ''alice''"
    "event (noFields\<lparr>event := Some ''message'', message := Some ''hi''\<rparr>) = Some ''message''"
    "\<not> (truthy (receiverId (noFields\<lparr>event := Some ''message'', message := Some ''hi''\<rparr>))
         \<and> truthy (message (noFields\<lparr>event := Some ''message'', message := Some ''hi''\<rparr>)))"
    by (simp_all add: ex_chat_def identity_def ex_sock_chat_def noFields_def)
  show ?thesis
    using h invalid_message_payload_logged [OF h, of ex_verify] by simp
qed

text \<open>
  The claim as stated fails: alice's message without a receiver puts nothing on the wire,
  so she receives no error envelope.
\<close>

theorem invalid_message_payload_counterexample:
  "sent (snd (onMessage_chat ex_verify 0
      (Some (noFields\<lparr>event := Some ''message'', message := Some ''hi''\<rparr>)) ex_chat)) = []"
  by (simp add: ex_chat_def identity_def ex_sock_chat_def noFields_def onMessage_chat_def
        message_chat_def)

subsection \<open>Live location\<close>

text \<open>
  Claim C4. After the connection of user \<open>u\<close>, open and authenticated, subscribes to
  user \<open>t\<close>, a location update from \<open>t\<close>'s connection sends the update to every open
  subscriber of \<open>t\<close>, and to \<open>u\<close>'s connection exactly once. After \<open>u\<close>'s connection has
  closed, a further update from \<open>t\<close> reaches the earlier subscribers only and never
  \<open>u\<close>'s connection. When \<open>t\<close> had no subscriber before, the first update is one envelope
  to \<open>u\<close>'s connection and the second reaches nobody.
\<close>

theorem location_fan_out:
  assumes "sockets_chat s cu = Some wu" and "identity wu = Some u" and "readyState wu = OPEN"
    and "sockets_chat s ct = Some wt" and "identity wt = Some t" and "cu \<noteq> ct"
    and "event sub = Some ''subscribeToLocation''" and "targetUserId sub = Some t"
    and "event upd = Some ''locationUpdate''" and "lat upd = Some la" and "lng upd = Some ln"
    and "distinct (subscribers_of s t)"
  shows "let s1 = fst (onMessage_chat verifyToken cu (Some sub) s);
             r2 = onMessage_chat verifyToken ct (Some upd) s1;
             s3 = fst (close_event_chat cu (fst r2));
             r4 = onMessage_chat verifyToken ct (Some upd) s3
         in filter (\<lambda>x. fst x = cu) (sent (snd r2)) = [(cu, LocationUpdate t la ln)]
          \<and> sent (snd r2) = map (\<lambda>h. (h, LocationUpdate t la ln))
               (filter (is_open s) (if cu \<in> set (subscribers_of s t) then subscribers_of s t
                                    else subscribers_of s t @ [cu]))
          \<and> filter (\<lambda>x. fst x = cu) (sent (snd r4)) = []
          \<and> sent (snd r4) = map (\<lambda>h. (h, LocationUpdate t la ln))
               (filter (is_open s) (removeAll cu (subscribers_of s t)))
          \<and> (subscribers_of s t = [] \<longrightarrow>
               sent (snd r2) = [(cu, LocationUpdate t la ln)] \<and> sent (snd r4) = [])"
proof -
  define subs where "subs = (if cu \<in> set (subscribers_of s t) then subscribers_of s t
                             else subscribers_of s t @ [cu])"
  define s1 where "s1 = fst (onMessage_chat verifyToken cu (Some sub) s)"
  define r2 where "r2 = onMessage_chat verifyToken ct (Some upd) s1"
  define s3 where "s3 = fst (close_event_chat cu (fst r2))"
  define r4 where "r4 = onMessage_chat verifyToken ct (Some upd) s3"
  have tne: "t \<noteq> []"
    using assms(5) by (auto simp: identity_def split: if_splits)
  have s1: "s1 = s\<lparr>locationSubscribers := (locationSubscribers s)(t \<mapsto> subs)\<rparr>"
    unfolding s1_def subs_def
    using assms(1,7) subscribeToLocation_result[OF assms(2) assms(8) tne, of cu s]
    by (simp add: onMessage_chat_def)
  have sub1: "subscribers_of s1 t = subs" and sock1: "sockets_chat s1 = sockets_chat s"
    by (simp_all add: s1 subscribers_of_def)
  have open1: "is_open s1 = is_open s"
    using sock1 by (rule is_open_sockets)
  have r2: "r2 = locationUpdate ct wt upd s1"
    unfolding r2_def using assms(4,9) sock1 by (simp add: onMessage_chat_def)
  note l2 = locationUpdate_result[OF assms(5,10,11), of ct s1]
  have sent2: "sent (snd r2) = map (\<lambda>h. (h, LocationUpdate t la ln)) (filter (is_open s) subs)"
    unfolding r2 by (simp add: l2(1) open1 sub1)
  have dsubs: "distinct subs" and cu_in: "cu \<in> set subs"
    using assms(12) by (simp_all add: subs_def)
  have open_cu: "is_open s cu"
    using assms(1,3) by (simp add: is_open_def)
  have one: "filter (\<lambda>x. fst x = cu) (sent (snd r2)) = [(cu, LocationUpdate t la ln)]"
  proof -
    have "filter (\<lambda>x. fst x = cu) (sent (snd r2))
            = map (\<lambda>h. (h, LocationUpdate t la ln)) (filter (\<lambda>h. h = cu) (filter (is_open s) subs))"
      by (simp add: sent2 filter_map comp_def)
    also have "filter (\<lambda>h. h = cu) (filter (is_open s) subs) = [cu]"
    proof -
      have "filter (\<lambda>h. h = cu) (filter (is_open s) subs)
              = filter (is_open s) (filter (\<lambda>h. h = cu) subs)"
        by (simp add: conj_commute)
      then show ?thesis
        using dsubs cu_in open_cu by (simp only: filter_eq_distinct) simp
    qed
    finally show ?thesis by simp
  qed
  have sock2a: "sockets_chat (fst r2) = sockets_chat s"
    unfolding r2 by (simp only: l2(2) sock1)
  have sock2: "sockets_chat (fst r2) cu = Some wu"
    using assms(1) by (simp only: sock2a)
  note c3 = close_event_chat_identified[OF sock2 assms(2)]
  have sock3: "sockets_chat s3 = (sockets_chat s)(cu \<mapsto> wu\<lparr>readyState := CLOSED\<rparr>)"
    unfolding s3_def by (simp only: c3(5) sock2a)
  have sub3: "subscribers_of s3 t = removeAll cu (subscribers_of s t)"
  proof -
    have "locationSubscribers (fst r2) t = Some subs"
      unfolding r2 by (simp only: l2(3)) (simp add: s1)
    then have "subscribers_of s3 t = removeAll cu subs"
      unfolding s3_def by (simp add: subscribers_of_def c3(4))
    also have "removeAll cu subs = removeAll cu (subscribers_of s t)"
      by (simp add: subs_def)
    finally show ?thesis .
  qed
  have open3: "is_open s3 h \<longleftrightarrow> h \<noteq> cu \<and> is_open s h" for h
    by (simp add: is_open_def sock3)
  have r4: "r4 = locationUpdate ct wt upd s3"
    unfolding r4_def using assms(4,6,9) by (simp add: onMessage_chat_def sock3)
  note l4 = locationUpdate_result[OF assms(5,10,11), of ct s3]
  have f4: "filter (is_open s3) (removeAll cu (subscribers_of s t))
          = filter (is_open s) (removeAll cu (subscribers_of s t))"
    by (rule filter_cong) (simp_all add: open3)
  have sent4: "sent (snd r4) = map (\<lambda>h. (h, LocationUpdate t la ln))
                 (filter (is_open s) (removeAll cu (subscribers_of s t)))"
    unfolding r4 by (simp add: l4(1) sub3 f4)
  have none: "filter (\<lambda>x. fst x = cu) (sent (snd r4)) = []"
    by (simp add: sent4 filter_map comp_def filter_empty_conv)
  have only: "subscribers_of s t = [] \<longrightarrow>
               sent (snd r2) = [(cu, LocationUpdate t la ln)] \<and> sent (snd r4) = []"
    using open_cu by (simp add: sent2 sent4 subs_def)
  have "filter (\<lambda>x. fst x = cu) (sent (snd r2)) = [(cu, LocationUpdate t la ln)]
          \<and> sent (snd r2) = map (\<lambda>h. (h, LocationUpdate t la ln)) (filter (is_open s) subs)
          \<and> filter (\<lambda>x. fst x = cu) (sent (snd r4)) = []
          \<and> sent (snd r4) = map (\<lambda>h. (h, LocationUpdate t la ln))
               (filter (is_open s) (removeAll cu (subscribers_of s t)))
          \<and> (subscribers_of s t = [] \<longrightarrow>
               sent (snd r2) = [(cu, LocationUpdate t la ln)] \<and> sent (snd r4) = [])"
    using one sent2 none sent4 only by blast
  then show ?thesis
    unfolding Let_def subs_def r4_def s3_def r2_def s1_def .
qed

theorem location_fan_out_witness:
  "sockets_chat ex_chat 0 = Some (ex_sock_chat (Some ''alice''))
   \<and> identity (ex_sock_chat (Some ''alice'')) = Some ''alice''
   \<and> readyState (ex_sock_chat (Some ''alice'')) = OPEN
   \<and> sockets_chat ex_chat 1 = Some (ex_sock_chat (Some ''bob''))
   \<and> identity (ex_sock_chat (Some ''bob'')) = Some ''bob''
   \<and> distinct (subscribers_of ex_chat ''bob'')
   \<and> sent (snd (onMessage_chat ex_verify 1
         (Some (noFields\<lparr>event := Some ''locationUpdate'', lat := Some 10, lng := Some 20\<rparr>))
         (fst (onMessage_chat ex_verify 0
           (Some (noFields\<lparr>event := Some ''subscribeToLocation'', targetUserId := Some ''bob''\<rparr>))
           ex_chat))))
       = [(0, LocationUpdate ''bob'' 10 20)]
   \<and> sent (snd (onMessage_chat ex_verify 1
         (Some (noFields\<lparr>event := Some ''locationUpdate'', lat := Some 10, lng := Some 20\<rparr>))
         (fst (close_event_chat 0
           (fst (onMessage_chat ex_verify 1
             (Some (noFields\<lparr>event := Some ''locationUpdate'', lat := Some 10, lng := Some 20\<rparr>))
             (fst (onMessage_chat ex_verify 0
               (Some (noFields\<lparr>event := Some ''subscribeToLocation'', targetUserId := Some ''bob''\<rparr>))
               ex_chat))))))))
       = []"
proof -
  let ?sub = "noFields\<lparr>event := Some ''subscribeToLocation'', targetUserId := Some ''bob''\<rparr>"
  let ?upd = "noFields\<lparr>event := Some ''locationUpdate'', lat := Some 10, lng := Some 20\<rparr>"
  have h: "sockets_chat ex_chat 0 = Some (ex_sock_chat (Some ''alice''))"
    "identity (ex_sock_chat (Some ''alice'')) = Some ''alice''"
    "readyState (ex_sock_chat (Some ''alice'')) = OPEN"
    "sockets_chat ex_chat 1 = Some (ex_sock_chat (Some ''bob''))"
    "identity (ex_sock_chat (Some ''bob'')) = Some ''bob''"
    "(0::nat) \<noteq> 1"
    "event ?sub = Some ''subscribeToLocation''" "targetUserId ?sub = Some ''bob''"
    "event ?upd = Some ''locationUpdate''" "lat ?upd = Some 10" "lng ?upd = Some 20"
    "distinct (subscribers_of ex_chat ''bob'')"
    by (simp_all add: ex_chat_def ex_sock_chat_def identity_def noFields_def subscribers_of_def)
  have e: "subscribers_of ex_chat ''bob'' = []" "is_open ex_chat 0"
    by (simp_all add: ex_chat_def subscribers_of_def is_open_def ex_sock_chat_def)
  show ?thesis
    using h location_fan_out [OF h, of ex_verify]
    by (simp add: Let_def e)
qed

end
